theory Spec2Isabelle
  imports Main
begin

section \<open>JavaScript strings\<close>

text \<open>
  A JavaScript string is a sequence of UTF-16 code units; \<open>length\<close> counts code units,
  as \<^verbatim>\<open>String.prototype.length\<close> does. Identifiers, error codes, field names and
  the fixed messages of the program are kept as HOL strings.
\<close>

type_synonym jsstring = "nat list"

type_synonym ident = string

definition js :: "string \<Rightarrow> jsstring" where
  "js s = map of_char s"

text \<open>
  The class \<^verbatim>\<open>\s\<close> of a regular expression, which is also what
  \<^verbatim>\<open>String.prototype.trim\<close> strips: WhiteSpace and LineTerminator code points.
\<close>

definition isWhiteSpace :: "nat \<Rightarrow> bool" where
  "isWhiteSpace c =
     (c \<in> set [9, 10, 11, 12, 13, 32, 160, 5760, 8232, 8233, 8239, 8287, 12288, 65279]
      \<or> (8192 \<le> c \<and> c \<le> 8202))"

text \<open>The characters that \<^verbatim>\<open>.\<close> of a regular expression does not match.\<close>

definition isLineTerminator :: "nat \<Rightarrow> bool" where
  "isLineTerminator c = (c \<in> set [10, 13, 8232, 8233])"

definition trim :: "jsstring \<Rightarrow> jsstring" where
  "trim s = rev (dropWhile isWhiteSpace (rev (dropWhile isWhiteSpace s)))"

text \<open>Accented letters of the French messages (Latin-1 code units).\<close>

definition a_grave :: string where "a_grave = [CHR 0xE0]"
definition a_circ :: string where "a_circ = [CHR 0xE2]"
definition e_grave :: string where "e_grave = [CHR 0xE8]"
definition e_acute :: string where "e_acute = [CHR 0xE9]"
definition e_circ :: string where "e_circ = [CHR 0xEA]"

text \<open>Decimal rendering of an array index inside a template literal.\<close>

fun showIndex :: "nat \<Rightarrow> string" where
  "showIndex n =
     (if n < 10 then [''0123456789'' ! n]
      else showIndex (n div 10) @ [''0123456789'' ! (n mod 10)])"

section \<open>Field validation (utils/validation.ts)\<close>

text \<open>
  The validators on a request body of the declared type, as the handlers below read it:
  a field is a string, or an array of strings, or absent, so that no \<^verbatim>\<open>trim\<close> throws and
  no \<^verbatim>\<open>!Array.isArray(...)\<close> branch is taken. The validators on any JSON body follow in
  the next section; on a typed body they return these lists (lemmas \<open>register_typed\<close>
  to \<open>comment_typed\<close>).
\<close>

record ValidationError =
  field :: string
  message :: string

text \<open>
  \<^verbatim>\<open>/^[^\s@]+@[^\s@]+\.[^\s@]+$/\<close>: the first group cannot hold an \<^verbatim>\<open>@\<close>, so it is
  the longest prefix of characters that are neither white space nor \<^verbatim>\<open>@\<close> and it must
  be followed by \<^verbatim>\<open>@\<close> (code unit 64); the rest consists of such characters only and
  holds a dot (46) that is neither its first nor its last character.
\<close>

definition emailChar :: "nat \<Rightarrow> bool" where
  "emailChar c = (\<not> isWhiteSpace c \<and> c \<noteq> 64)"

definition isValidEmail :: "jsstring \<Rightarrow> bool" where
  "isValidEmail email =
     (takeWhile emailChar email \<noteq> [] \<and>
      (case dropWhile emailChar email of
         [] \<Rightarrow> False
       | c # domain \<Rightarrow> c = 64 \<and> list_all emailChar domain \<and> 46 \<in> set (butlast (tl domain))))"

definition isLower :: "nat \<Rightarrow> bool" where
  "isLower c = (97 \<le> c \<and> c \<le> 122)"

definition isUpper :: "nat \<Rightarrow> bool" where
  "isUpper c = (65 \<le> c \<and> c \<le> 90)"

definition isDigit :: "nat \<Rightarrow> bool" where
  "isDigit c = (48 \<le> c \<and> c \<le> 57)"

text \<open>The class \<^verbatim>\<open>[a-zA-Z\d@$!%*?&]\<close>.\<close>

definition passwordChar :: "nat \<Rightarrow> bool" where
  "passwordChar c = (isLower c \<or> isUpper c \<or> isDigit c \<or> c \<in> set [64, 36, 33, 37, 42, 63, 38])"

text \<open>
  The lookahead \<^verbatim>\<open>(?=.*X)\<close> at the start of the input: some character of class \<open>X\<close> is
  reached from the start through characters that \<^verbatim>\<open>.\<close> matches.
\<close>

definition lookahead :: "(nat \<Rightarrow> bool) \<Rightarrow> jsstring \<Rightarrow> bool" where
  "lookahead X s = list_ex X (takeWhile (\<lambda>c. \<not> isLineTerminator c) s)"

text \<open>\<^verbatim>\<open>/^(?=.*[a-z])(?=.*[A-Z])(?=.*\d)[a-zA-Z\d@$!%*?&]{8,}$/\<close>\<close>

definition isValidPassword :: "jsstring \<Rightarrow> bool" where
  "isValidPassword password =
     (lookahead isLower password \<and> lookahead isUpper password \<and> lookahead isDigit password \<and>
      8 \<le> length password \<and> list_all passwordChar password)"

record RegisterData =
  rd_email :: jsstring
  rd_password :: jsstring
  rd_name :: "jsstring option"

definition registerEmailErrors :: "RegisterData \<Rightarrow> ValidationError list" where
  "registerEmailErrors d =
     (if rd_email d = [] then [\<lparr>field = ''email'', message = ''L'email est requis''\<rparr>]
      else if \<not> isValidEmail (rd_email d)
        then [\<lparr>field = ''email'', message = ''Format d'email invalide''\<rparr>]
      else [])"

definition registerPasswordErrors :: "RegisterData \<Rightarrow> ValidationError list" where
  "registerPasswordErrors d =
     (if rd_password d = [] then [\<lparr>field = ''password'', message = ''Le mot de passe est requis''\<rparr>]
      else if \<not> isValidPassword (rd_password d)
        then [\<lparr>field = ''password'',
               message = ''Le mot de passe doit contenir au moins 8 caract'' @ e_grave @
                 ''res, une lettre majuscule, une lettre minuscule et un chiffre''\<rparr>]
      else [])"

definition registerNameErrors :: "RegisterData \<Rightarrow> ValidationError list" where
  "registerNameErrors d =
     (case rd_name d of
        None \<Rightarrow> []
      | Some n \<Rightarrow>
          if n \<noteq> [] \<and> length (trim n) < 2
          then [\<lparr>field = ''name'',
                 message = ''Le nom doit contenir au moins 2 caract'' @ e_grave @ ''res''\<rparr>]
          else [])"

text \<open>
  \<open>validateRegisterData\<close>: the three blocks push onto the same array one after the other.
\<close>

definition validateRegisterData :: "RegisterData \<Rightarrow> ValidationError list" where
  "validateRegisterData d = registerEmailErrors d @ registerPasswordErrors d @ registerNameErrors d"

record LoginData =
  ld_email :: jsstring
  ld_password :: jsstring

definition validateLoginData :: "LoginData \<Rightarrow> ValidationError list" where
  "validateLoginData d =
     (if ld_email d = [] then [\<lparr>field = ''email'', message = ''L'email est requis''\<rparr>] else []) @
     (if ld_password d = [] then [\<lparr>field = ''password'', message = ''Le mot de passe est requis''\<rparr>]
      else [])"

record UpdateProfileData =
  pr_name :: "jsstring option"
  pr_email :: "jsstring option"

definition validateUpdateProfileData :: "UpdateProfileData \<Rightarrow> ValidationError list" where
  "validateUpdateProfileData d =
     (case pr_email d of
        None \<Rightarrow> []
      | Some e \<Rightarrow>
          if trim e = []
            then [\<lparr>field = ''email'', message = ''L'email ne peut pas '' @ e_circ @ ''tre vide''\<rparr>]
          else if \<not> isValidEmail e
            then [\<lparr>field = ''email'', message = ''Format d'email invalide''\<rparr>]
          else []) @
     (case pr_name d of
        None \<Rightarrow> []
      | Some n \<Rightarrow>
          if length (trim n) < 2
          then [\<lparr>field = ''name'',
                 message = ''Le nom doit contenir au moins 2 caract'' @ e_grave @ ''res''\<rparr>]
          else [])"

record UpdatePasswordData =
  pw_currentPassword :: jsstring
  pw_newPassword :: jsstring

definition validateUpdatePasswordData :: "UpdatePasswordData \<Rightarrow> ValidationError list" where
  "validateUpdatePasswordData d =
     (if pw_currentPassword d = []
        then [\<lparr>field = ''currentPassword'', message = ''Le mot de passe actuel est requis''\<rparr>]
      else []) @
     (if pw_newPassword d = []
        then [\<lparr>field = ''newPassword'', message = ''Le nouveau mot de passe est requis''\<rparr>]
      else if \<not> isValidPassword (pw_newPassword d)
        then [\<lparr>field = ''newPassword'',
               message = ''Le nouveau mot de passe doit contenir au moins 8 caract'' @ e_grave @
                 ''res, une lettre majuscule, une lettre minuscule et un chiffre''\<rparr>]
      else []) @
     (if pw_currentPassword d \<noteq> [] \<and> pw_newPassword d \<noteq> [] \<and>
         pw_currentPassword d = pw_newPassword d
        then [\<lparr>field = ''newPassword'',
               message = ''Le nouveau mot de passe doit '' @ e_circ @ ''tre diff'' @ e_acute @
                 ''rent de l'actuel''\<rparr>]
      else [])"

record CreateProjectData =
  cp_name :: jsstring
  cp_description :: "jsstring option"
  cp_contributors :: "jsstring list option"

text \<open>
  \<^verbatim>\<open>array.forEach((x, index) => { if (bad(x)) errors.push({field: `name[${index}]`, ...}) })\<close>
\<close>

definition forEachIndexed :: "('a \<Rightarrow> bool) \<Rightarrow> string \<Rightarrow> string \<Rightarrow> 'a list \<Rightarrow> ValidationError list" where
  "forEachIndexed bad name msg xs =
     concat (map (\<lambda>(index, x).
        if bad x then [\<lparr>field = name @ ''['' @ showIndex index @ '']'', message = msg\<rparr>] else [])
       (enumerate 0 xs))"

definition validateCreateProjectData :: "CreateProjectData \<Rightarrow> ValidationError list" where
  "validateCreateProjectData d =
     (if cp_name d = [] then [\<lparr>field = ''name'', message = ''Le nom du projet est requis''\<rparr>]
      else if length (trim (cp_name d)) < 2
        then [\<lparr>field = ''name'',
               message = ''Le nom du projet doit contenir au moins 2 caract'' @ e_grave @ ''res''\<rparr>]
      else if length (trim (cp_name d)) > 100
        then [\<lparr>field = ''name'',
               message = ''Le nom du projet ne peut pas d'' @ e_acute @ ''passer 100 caract'' @ e_grave @ ''res''\<rparr>]
      else []) @
     (case cp_description d of
        None \<Rightarrow> []
      | Some t \<Rightarrow>
          if t \<noteq> [] \<and> length (trim t) > 500
          then [\<lparr>field = ''description'',
                 message = ''La description ne peut pas d'' @ e_acute @ ''passer 500 caract'' @ e_grave @ ''res''\<rparr>]
          else []) @
     (case cp_contributors d of
        None \<Rightarrow> []
      | Some cs \<Rightarrow> forEachIndexed (\<lambda>email. \<not> isValidEmail email) ''contributors''
                    ''Format d'email invalide'' cs)"

record UpdateProjectData =
  up_name :: "jsstring option"
  up_description :: "jsstring option"
  up_contributors :: "jsstring list option"

definition validateUpdateProjectData :: "UpdateProjectData \<Rightarrow> ValidationError list" where
  "validateUpdateProjectData d =
     (case up_name d of
        None \<Rightarrow> []
      | Some n \<Rightarrow>
          if trim n = [] then [\<lparr>field = ''name'',
                 message = ''Le nom du projet ne peut pas '' @ e_circ @ ''tre vide''\<rparr>]
          else if length (trim n) < 2
            then [\<lparr>field = ''name'',
                   message = ''Le nom du projet doit contenir au moins 2 caract'' @ e_grave @ ''res''\<rparr>]
          else if length (trim n) > 100
            then [\<lparr>field = ''name'',
                   message = ''Le nom du projet ne peut pas d'' @ e_acute @ ''passer 100 caract'' @ e_grave @ ''res''\<rparr>]
          else []) @
     (case up_description d of
        None \<Rightarrow> []
      | Some t \<Rightarrow>
          if length (trim t) > 500
          then [\<lparr>field = ''description'',
                 message = ''La description ne peut pas d'' @ e_acute @ ''passer 500 caract'' @ e_grave @ ''res''\<rparr>]
          else []) @
     (case up_contributors d of
        None \<Rightarrow> []
      | Some cs \<Rightarrow> forEachIndexed (\<lambda>email. \<not> isValidEmail email) ''contributors''
                    ''Format d'email invalide'' cs)"

text \<open>
  The built-ins of the JavaScript runtime that the program calls and whose tables are
  outside the repository: \<^verbatim>\<open>new Date(s).getTime()\<close> (\<open>None\<close> for \<^verbatim>\<open>NaN\<close>),
  \<^verbatim>\<open>Date.prototype.toISOString\<close> and \<^verbatim>\<open>String.prototype.toLowerCase\<close>.
\<close>

record Runtime =
  parseDate :: "jsstring \<Rightarrow> int option"
  toISOString :: "int \<Rightarrow> jsstring"
  toLowerCase :: "jsstring \<Rightarrow> jsstring"

definition isValidDate :: "Runtime \<Rightarrow> jsstring \<Rightarrow> bool" where
  "isValidDate rt dateString =
     (case parseDate rt dateString of
        None \<Rightarrow> False
      | Some t \<Rightarrow> dateString = toISOString rt t)"

definition titleLengthErrors :: "jsstring \<Rightarrow> ValidationError list" where
  "titleLengthErrors title =
     (if length (trim title) < 2
        then [\<lparr>field = ''title'',
               message = ''Le titre de la t'' @ a_circ @ ''che doit contenir au moins 2 caract'' @ e_grave @ ''res''\<rparr>]
      else if length (trim title) > 200
        then [\<lparr>field = ''title'',
               message = ''Le titre de la t'' @ a_circ @ ''che ne peut pas d'' @ e_acute @
                 ''passer 200 caract'' @ e_grave @ ''res''\<rparr>]
      else [])"

definition enumErrors :: "string \<Rightarrow> string \<Rightarrow> string list \<Rightarrow> jsstring option \<Rightarrow> ValidationError list" where
  "enumErrors name msg allowed v =
     (case v of
        None \<Rightarrow> []
      | Some x \<Rightarrow> if x \<noteq> [] \<and> x \<notin> set (map js allowed) then [\<lparr>field = name, message = msg\<rparr>] else [])"

definition priorityErrors :: "jsstring option \<Rightarrow> ValidationError list" where
  "priorityErrors v =
     enumErrors ''priority'' (''La priorit'' @ e_acute @ '' doit '' @ e_circ @ ''tre LOW, MEDIUM, HIGH ou URGENT'')
       [''LOW'', ''MEDIUM'', ''HIGH'', ''URGENT''] v"

definition statusErrors :: "jsstring option \<Rightarrow> ValidationError list" where
  "statusErrors v =
     enumErrors ''status'' (''Le statut doit '' @ e_circ @ ''tre TODO, IN_PROGRESS, DONE ou CANCELLED'')
       [''TODO'', ''IN_PROGRESS'', ''DONE'', ''CANCELLED''] v"

definition dueDateErrors :: "Runtime \<Rightarrow> jsstring option \<Rightarrow> ValidationError list" where
  "dueDateErrors rt v =
     (case v of
        None \<Rightarrow> []
      | Some d \<Rightarrow>
          if d \<noteq> [] \<and> \<not> isValidDate rt d
          then [\<lparr>field = ''dueDate'', message = ''Format de date invalide (utilisez le format ISO)''\<rparr>]
          else [])"

definition assigneeIdsErrors :: "ident list option \<Rightarrow> ValidationError list" where
  "assigneeIdsErrors v =
     (case v of
        None \<Rightarrow> []
      | Some ids \<Rightarrow> forEachIndexed (\<lambda>userId. userId = []) ''assigneeIds''
                     (''L'ID de l'utilisateur assign'' @ e_acute @ '' est invalide'') ids)"

record CreateTaskRequest =
  ct_title :: jsstring
  ct_description :: "jsstring option"
  ct_priority :: "jsstring option"
  ct_dueDate :: "jsstring option"
  ct_assigneeIds :: "ident list option"

definition validateCreateTaskData :: "Runtime \<Rightarrow> CreateTaskRequest \<Rightarrow> ValidationError list" where
  "validateCreateTaskData rt d =
     (if ct_title d = []
        then [\<lparr>field = ''title'', message = ''Le titre de la t'' @ a_circ @ ''che est requis''\<rparr>]
      else titleLengthErrors (ct_title d)) @
     (case ct_description d of
        None \<Rightarrow> []
      | Some t \<Rightarrow>
          if t \<noteq> [] \<and> length (trim t) > 1000
          then [\<lparr>field = ''description'',
                 message = ''La description ne peut pas d'' @ e_acute @ ''passer 1000 caract'' @ e_grave @ ''res''\<rparr>]
          else []) @
     priorityErrors (ct_priority d) @
     dueDateErrors rt (ct_dueDate d) @
     assigneeIdsErrors (ct_assigneeIds d)"

record UpdateTaskRequest =
  ut_title :: "jsstring option"
  ut_description :: "jsstring option"
  ut_status :: "jsstring option"
  ut_priority :: "jsstring option"
  ut_dueDate :: "jsstring option"
  ut_assigneeIds :: "ident list option"

definition validateUpdateTaskData :: "Runtime \<Rightarrow> UpdateTaskRequest \<Rightarrow> ValidationError list" where
  "validateUpdateTaskData rt d =
     (case ut_title d of
        None \<Rightarrow> []
      | Some t \<Rightarrow>
          if trim t = []
            then [\<lparr>field = ''title'',
                   message = ''Le titre de la t'' @ a_circ @ ''che ne peut pas '' @ e_circ @ ''tre vide''\<rparr>]
          else titleLengthErrors t) @
     (case ut_description d of
        None \<Rightarrow> []
      | Some t \<Rightarrow>
          if length (trim t) > 1000
          then [\<lparr>field = ''description'',
                 message = ''La description ne peut pas d'' @ e_acute @ ''passer 1000 caract'' @ e_grave @ ''res''\<rparr>]
          else []) @
     statusErrors (ut_status d) @
     priorityErrors (ut_priority d) @
     dueDateErrors rt (ut_dueDate d) @
     assigneeIdsErrors (ut_assigneeIds d)"

text \<open>\<open>validateCreateCommentData\<close> and \<open>validateUpdateCommentData\<close> have the same body.\<close>

definition validateCreateCommentData :: "jsstring \<Rightarrow> ValidationError list" where
  "validateCreateCommentData content =
     (if content = []
        then [\<lparr>field = ''content'', message = ''Le contenu du commentaire est requis''\<rparr>]
      else if length (trim content) < 1
        then [\<lparr>field = ''content'',
               message = ''Le contenu du commentaire ne peut pas '' @ e_circ @ ''tre vide''\<rparr>]
      else if length (trim content) > 2000
        then [\<lparr>field = ''content'',
               message = ''Le contenu du commentaire ne peut pas d'' @ e_acute @
                 ''passer 2000 caract'' @ e_grave @ ''res''\<rparr>]
      else [])"

definition validateUpdateCommentData :: "jsstring \<Rightarrow> ValidationError list" where
  "validateUpdateCommentData content =
     (if content = []
        then [\<lparr>field = ''content'', message = ''Le contenu du commentaire est requis''\<rparr>]
      else if length (trim content) < 1
        then [\<lparr>field = ''content'',
               message = ''Le contenu du commentaire ne peut pas '' @ e_circ @ ''tre vide''\<rparr>]
      else if length (trim content) > 2000
        then [\<lparr>field = ''content'',
               message = ''Le contenu du commentaire ne peut pas d'' @ e_acute @
                 ''passer 2000 caract'' @ e_grave @ ''res''\<rparr>]
      else [])"

section \<open>The validators on any JSON body (utils/validation.ts)\<close>

text \<open>
  The fields of a request body are JSON values, whatever the request types declare; a
  field that the body leaves out is \<^verbatim>\<open>undefined\<close>. A number is represented by the string
  that \<^verbatim>\<open>ToString\<close> gives for it (\<open>0\<close> and \<open>-0\<close> both give \<^verbatim>\<open>"0"\<close>); an object by its
  own properties. A value of a body is never a function.
\<close>

datatype JsValue =
    Undefined
  | Null
  | Bool bool
  | Num jsstring
  | Str jsstring
  | Arr "JsValue list"
  | Obj "(jsstring \<times> JsValue) list"

datatype JsError = TypeError

text \<open>\<^verbatim>\<open>!!v\<close>\<close>

fun truthy :: "JsValue \<Rightarrow> bool" where
  "truthy Undefined = False"
| "truthy Null = False"
| "truthy (Bool b) = b"
| "truthy (Num n) = (n \<noteq> js ''0'')"
| "truthy (Str s) = (s \<noteq> [])"
| "truthy (Arr xs) = True"
| "truthy (Obj ps) = True"

text \<open>
  \<^verbatim>\<open>v.trim()\<close>: reading a property of \<^verbatim>\<open>undefined\<close> or \<^verbatim>\<open>null\<close> throws, and on any other
  value that is not a string \<^verbatim>\<open>trim\<close> is not a function.
\<close>

fun trimOf :: "JsValue \<Rightarrow> JsError + jsstring" where
  "trimOf (Str s) = Inr (trim s)"
| "trimOf v = Inl TypeError"

text \<open>
  \<^verbatim>\<open>ToString(v)\<close>, which \<^verbatim>\<open>RegExp.prototype.test\<close> applies to its argument. An array is
  joined with commas, \<^verbatim>\<open>undefined\<close> and \<^verbatim>\<open>null\<close> elements giving the empty string. An
  object gives \<^verbatim>\<open>"[object Object]"\<close> through the inherited \<^verbatim>\<open>toString\<close>, unless it has
  an own property of that name, which is not callable: then the conversion throws.
\<close>

fun toStr :: "JsValue \<Rightarrow> JsError + jsstring"
  and joinStr :: "JsValue list \<Rightarrow> JsError + jsstring" where
  "toStr Undefined = Inr (js ''undefined'')"
| "toStr Null = Inr (js ''null'')"
| "toStr (Bool b) = Inr (if b then js ''true'' else js ''false'')"
| "toStr (Num n) = Inr n"
| "toStr (Str s) = Inr s"
| "toStr (Arr xs) = joinStr xs"
| "toStr (Obj ps) = (if js ''toString'' \<in> set (map fst ps) then Inl TypeError else Inr (js ''[object Object]''))"
| "joinStr [] = Inr []"
| "joinStr (x # xs) =
     (case (if x = Undefined \<or> x = Null then Inr [] else toStr x) of
        Inl e \<Rightarrow> Inl e
      | Inr a \<Rightarrow>
          if xs = [] then Inr a
          else (case joinStr xs of Inl e \<Rightarrow> Inl e | Inr b \<Rightarrow> Inr (a @ js '','' @ b)))"

text \<open>\<^verbatim>\<open>a === b\<close>: two objects or arrays of a parsed body are never the same object.\<close>

fun strictEquals :: "JsValue \<Rightarrow> JsValue \<Rightarrow> bool" where
  "strictEquals Undefined Undefined = True"
| "strictEquals Null Null = True"
| "strictEquals (Bool a) (Bool b) = (a = b)"
| "strictEquals (Num a) (Num b) = (a = b)"
| "strictEquals (Str a) (Str b) = (a = b)"
| "strictEquals a b = False"

text \<open>\<open>isValidEmail\<close> and \<open>isValidPassword\<close> on any value: the regular expression tests \<^verbatim>\<open>ToString(v)\<close>.\<close>

definition testEmail :: "JsValue \<Rightarrow> JsError + bool" where
  "testEmail v = (case toStr v of Inl e \<Rightarrow> Inl e | Inr s \<Rightarrow> Inr (isValidEmail s))"

definition testPassword :: "JsValue \<Rightarrow> JsError + bool" where
  "testPassword v = (case toStr v of Inl e \<Rightarrow> Inl e | Inr s \<Rightarrow> Inr (isValidPassword s))"

text \<open>
  \<open>isValidDate\<close> on any value: \<^verbatim>\<open>new Date(v)\<close> converts an object or an array to a
  primitive, which throws as \<^verbatim>\<open>ToString\<close> does, and \<^verbatim>\<open>v === date.toISOString()\<close> is false
  for every value that is not a string.
\<close>

definition testDate :: "Runtime \<Rightarrow> JsValue \<Rightarrow> JsError + bool" where
  "testDate rt v =
     (case v of
        Str s \<Rightarrow> Inr (isValidDate rt s)
      | _ \<Rightarrow> (case toStr v of Inl e \<Rightarrow> Inl e | Inr s \<Rightarrow> Inr False))"

text \<open>\<^verbatim>\<open>[...].includes(v)\<close> for a list of strings.\<close>

definition arrayIncludes :: "string list \<Rightarrow> JsValue \<Rightarrow> bool" where
  "arrayIncludes allowed v = (case v of Str s \<Rightarrow> s \<in> set (map js allowed) | _ \<Rightarrow> False)"

text \<open>
  A validator runs its blocks one after the other, each pushing onto \<^verbatim>\<open>errors\<close>; an
  exception in a block leaves the validator, and the list with it.
\<close>

type_synonym Checked = "JsError + ValidationError list"

definition andThen :: "Checked \<Rightarrow> Checked \<Rightarrow> Checked" where
  "andThen a b =
     (case a of
        Inl e \<Rightarrow> Inl e
      | Inr xs \<Rightarrow> (case b of Inl e \<Rightarrow> Inl e | Inr ys \<Rightarrow> Inr (xs @ ys)))"

definition whenOk :: "JsError + 'a \<Rightarrow> ('a \<Rightarrow> ValidationError list) \<Rightarrow> Checked" where
  "whenOk r f = (case r of Inl e \<Rightarrow> Inl e | Inr x \<Rightarrow> Inr (f x))"

definition entry :: "string \<Rightarrow> string \<Rightarrow> ValidationError list" where
  "entry name msg = [\<lparr>field = name, message = msg\<rparr>]"

text \<open>\<^verbatim>\<open>if (!v) push(required)\<close>\<close>

definition checkRequired :: "string \<Rightarrow> string \<Rightarrow> JsValue \<Rightarrow> Checked" where
  "checkRequired name required v = Inr (if \<not> truthy v then entry name required else [])"

text \<open>\<^verbatim>\<open>if (!v) push(required) else if (!test(v)) push(invalid)\<close>\<close>

definition checkRequiredFormat ::
  "string \<Rightarrow> string \<Rightarrow> (JsValue \<Rightarrow> JsError + bool) \<Rightarrow> string \<Rightarrow> JsValue \<Rightarrow> Checked" where
  "checkRequiredFormat name required test invalid v =
     (if \<not> truthy v then Inr (entry name required)
      else whenOk (test v) (\<lambda>ok. if \<not> ok then entry name invalid else []))"

text \<open>
  \<^verbatim>\<open>if (!v) push(required) else if (v.trim().length < lo) push(short) else if (v.trim().length > hi) push(long)\<close>
\<close>

definition checkRequiredLength ::
  "string \<Rightarrow> string \<Rightarrow> nat \<Rightarrow> string \<Rightarrow> nat \<Rightarrow> string \<Rightarrow> JsValue \<Rightarrow> Checked" where
  "checkRequiredLength name required lo short hi long v =
     (if \<not> truthy v then Inr (entry name required)
      else whenOk (trimOf v)
             (\<lambda>t. if length t < lo then entry name short
                  else if length t > hi then entry name long else []))"

text \<open>
  \<^verbatim>\<open>if (v !== undefined) { if (!v.trim()) push(blank) else if (v.trim().length < 2) push(short) else if (v.trim().length > hi) push(long) }\<close>
\<close>

definition checkDefinedLength ::
  "string \<Rightarrow> string \<Rightarrow> string \<Rightarrow> nat \<Rightarrow> string \<Rightarrow> JsValue \<Rightarrow> Checked" where
  "checkDefinedLength name blank short hi long v =
     (if v \<noteq> Undefined
      then whenOk (trimOf v)
             (\<lambda>t. if t = [] then entry name blank
                  else if length t < 2 then entry name short
                  else if length t > hi then entry name long else [])
      else Inr [])"

text \<open>\<^verbatim>\<open>if (v && v.trim().length > hi) push(long)\<close>\<close>

definition checkTruthyMax :: "string \<Rightarrow> nat \<Rightarrow> string \<Rightarrow> JsValue \<Rightarrow> Checked" where
  "checkTruthyMax name hi long v =
     (if truthy v then whenOk (trimOf v) (\<lambda>t. if length t > hi then entry name long else [])
      else Inr [])"

text \<open>\<^verbatim>\<open>if (v !== undefined && v.trim().length > hi) push(long)\<close>\<close>

definition checkDefinedMax :: "string \<Rightarrow> nat \<Rightarrow> string \<Rightarrow> JsValue \<Rightarrow> Checked" where
  "checkDefinedMax name hi long v =
     (if v \<noteq> Undefined then whenOk (trimOf v) (\<lambda>t. if length t > hi then entry name long else [])
      else Inr [])"

text \<open>\<^verbatim>\<open>if (v && ![...].includes(v)) push(invalid)\<close>\<close>

definition checkEnum :: "string \<Rightarrow> string \<Rightarrow> string list \<Rightarrow> JsValue \<Rightarrow> Checked" where
  "checkEnum name invalid allowed v =
     Inr (if truthy v \<and> \<not> arrayIncludes allowed v then entry name invalid else [])"

text \<open>\<^verbatim>\<open>if (v && !isValidDate(v)) push(invalid)\<close>; the update validator's extra
  \<^verbatim>\<open>v !== undefined\<close> is implied by \<^verbatim>\<open>v\<close>.\<close>

definition checkDueDate :: "Runtime \<Rightarrow> JsValue \<Rightarrow> Checked" where
  "checkDueDate rt v =
     (if truthy v
      then whenOk (testDate rt v)
             (\<lambda>ok. if \<not> ok then entry ''dueDate'' ''Format de date invalide (utilisez le format ISO)'' else [])
      else Inr [])"

text \<open>\<^verbatim>\<open>xs.forEach((x, index) => { if (bad(x)) push({field: `name[${index}]`, message}) })\<close>\<close>

fun forEachFrom ::
  "nat \<Rightarrow> (JsValue \<Rightarrow> JsError + bool) \<Rightarrow> string \<Rightarrow> string \<Rightarrow> JsValue list \<Rightarrow> Checked" where
  "forEachFrom index bad name msg [] = Inr []"
| "forEachFrom index bad name msg (x # xs) =
     andThen (whenOk (bad x) (\<lambda>b. if b then entry (name @ ''['' @ showIndex index @ '']'') msg else []))
       (forEachFrom (Suc index) bad name msg xs)"

text \<open>
  \<^verbatim>\<open>if (!Array.isArray(v)) push(notArray) else v.forEach(...)\<close>, for a value \<open>v\<close> that is
  present.
\<close>

definition checkArray ::
  "string \<Rightarrow> string \<Rightarrow> (JsValue \<Rightarrow> JsError + bool) \<Rightarrow> string \<Rightarrow> JsValue \<Rightarrow> Checked" where
  "checkArray name notArray bad msg v =
     (case v of
        Arr xs \<Rightarrow> forEachFrom 0 bad name msg xs
      | _ \<Rightarrow> Inr (entry name notArray))"

definition negated :: "JsError + bool \<Rightarrow> JsError + bool" where
  "negated r = (case r of Inl e \<Rightarrow> Inl e | Inr b \<Rightarrow> Inr (\<not> b))"

text \<open>The element check of the contributors: \<^verbatim>\<open>!isValidEmail(email)\<close>.\<close>

definition checkContributors :: "JsValue \<Rightarrow> Checked" where
  "checkContributors v =
     checkArray ''contributors'' (''Les contributeurs doivent '' @ e_circ @ ''tre un tableau'')
       (\<lambda>email. negated (testEmail email)) ''Format d'email invalide'' v"

text \<open>The element check of the assignees: \<^verbatim>\<open>!userId || typeof userId !== "string"\<close>.\<close>

definition badUserId :: "JsValue \<Rightarrow> bool" where
  "badUserId userId = (case userId of Str s \<Rightarrow> s = [] | _ \<Rightarrow> True)"

definition checkAssigneeIds :: "JsValue \<Rightarrow> Checked" where
  "checkAssigneeIds v =
     checkArray ''assigneeIds'' (''Les assignations doivent '' @ e_circ @ ''tre un tableau'')
       (\<lambda>userId. Inr (badUserId userId))
       (''L'ID de l'utilisateur assign'' @ e_acute @ '' est invalide'') v"

record RawRegisterData =
  rr_email :: JsValue
  rr_password :: JsValue
  rr_name :: JsValue

text \<open>\<open>validateRegisterData\<close>; the name block is \<^verbatim>\<open>if (name && name.trim().length < 2)\<close>.\<close>

definition validateRegisterDataRaw :: "RawRegisterData \<Rightarrow> Checked" where
  "validateRegisterDataRaw d =
     andThen (checkRequiredFormat ''email'' ''L'email est requis'' testEmail ''Format d'email invalide''
                (rr_email d))
    (andThen (checkRequiredFormat ''password'' ''Le mot de passe est requis'' testPassword
                (''Le mot de passe doit contenir au moins 8 caract'' @ e_grave @
                 ''res, une lettre majuscule, une lettre minuscule et un chiffre'') (rr_password d))
       (if truthy (rr_name d)
        then whenOk (trimOf (rr_name d))
               (\<lambda>t. if length t < 2
                    then entry ''name'' (''Le nom doit contenir au moins 2 caract'' @ e_grave @ ''res'')
                    else [])
        else Inr []))"

record RawLoginData =
  rl_email :: JsValue
  rl_password :: JsValue

definition validateLoginDataRaw :: "RawLoginData \<Rightarrow> Checked" where
  "validateLoginDataRaw d =
     andThen (checkRequired ''email'' ''L'email est requis'' (rl_email d))
       (checkRequired ''password'' ''Le mot de passe est requis'' (rl_password d))"

record RawUpdateProfileData =
  rp_name :: JsValue
  rp_email :: JsValue

text \<open>
  \<open>validateUpdateProfileData\<close>: both blocks are guarded by \<^verbatim>\<open>!== undefined\<close> only and
  call \<^verbatim>\<open>trim\<close> on the value.
\<close>

definition validateUpdateProfileDataRaw :: "RawUpdateProfileData \<Rightarrow> Checked" where
  "validateUpdateProfileDataRaw d =
     andThen
       (if rp_email d \<noteq> Undefined
        then (case trimOf (rp_email d) of
                Inl e \<Rightarrow> Inl e
              | Inr t \<Rightarrow>
                  if t = [] then Inr (entry ''email'' (''L'email ne peut pas '' @ e_circ @ ''tre vide''))
                  else whenOk (testEmail (rp_email d))
                         (\<lambda>ok. if \<not> ok then entry ''email'' ''Format d'email invalide'' else []))
        else Inr [])
       (if rp_name d \<noteq> Undefined
        then whenOk (trimOf (rp_name d))
               (\<lambda>t. if length t < 2
                    then entry ''name'' (''Le nom doit contenir au moins 2 caract'' @ e_grave @ ''res'')
                    else [])
        else Inr [])"

record RawUpdatePasswordData =
  rw_currentPassword :: JsValue
  rw_newPassword :: JsValue

definition validateUpdatePasswordDataRaw :: "RawUpdatePasswordData \<Rightarrow> Checked" where
  "validateUpdatePasswordDataRaw d =
     andThen (checkRequired ''currentPassword'' ''Le mot de passe actuel est requis'' (rw_currentPassword d))
    (andThen (checkRequiredFormat ''newPassword'' ''Le nouveau mot de passe est requis'' testPassword
                (''Le nouveau mot de passe doit contenir au moins 8 caract'' @ e_grave @
                 ''res, une lettre majuscule, une lettre minuscule et un chiffre'') (rw_newPassword d))
       (Inr (if truthy (rw_currentPassword d) \<and> truthy (rw_newPassword d) \<and>
                strictEquals (rw_currentPassword d) (rw_newPassword d)
             then entry ''newPassword''
                    (''Le nouveau mot de passe doit '' @ e_circ @ ''tre diff'' @ e_acute @ ''rent de l'actuel'')
             else [])))"

record RawProjectData =
  rj_name :: JsValue
  rj_description :: JsValue
  rj_contributors :: JsValue

definition validateCreateProjectDataRaw :: "RawProjectData \<Rightarrow> Checked" where
  "validateCreateProjectDataRaw d =
     andThen (checkRequiredLength ''name'' ''Le nom du projet est requis''
                2 (''Le nom du projet doit contenir au moins 2 caract'' @ e_grave @ ''res'')
                100 (''Le nom du projet ne peut pas d'' @ e_acute @ ''passer 100 caract'' @ e_grave @ ''res'')
                (rj_name d))
    (andThen (checkTruthyMax ''description'' 500
                (''La description ne peut pas d'' @ e_acute @ ''passer 500 caract'' @ e_grave @ ''res'')
                (rj_description d))
       (if truthy (rj_contributors d) then checkContributors (rj_contributors d) else Inr []))"

definition validateUpdateProjectDataRaw :: "RawProjectData \<Rightarrow> Checked" where
  "validateUpdateProjectDataRaw d =
     andThen (checkDefinedLength ''name'' (''Le nom du projet ne peut pas '' @ e_circ @ ''tre vide'')
                (''Le nom du projet doit contenir au moins 2 caract'' @ e_grave @ ''res'')
                100 (''Le nom du projet ne peut pas d'' @ e_acute @ ''passer 100 caract'' @ e_grave @ ''res'')
                (rj_name d))
    (andThen (checkDefinedMax ''description'' 500
                (''La description ne peut pas d'' @ e_acute @ ''passer 500 caract'' @ e_grave @ ''res'')
                (rj_description d))
       (if rj_contributors d \<noteq> Undefined then checkContributors (rj_contributors d) else Inr []))"

record RawTaskData =
  rt_title :: JsValue
  rt_description :: JsValue
  rt_status :: JsValue
  rt_priority :: JsValue
  rt_dueDate :: JsValue
  rt_assigneeIds :: JsValue

definition checkPriority :: "JsValue \<Rightarrow> Checked" where
  "checkPriority v =
     checkEnum ''priority'' (''La priorit'' @ e_acute @ '' doit '' @ e_circ @ ''tre LOW, MEDIUM, HIGH ou URGENT'')
       [''LOW'', ''MEDIUM'', ''HIGH'', ''URGENT''] v"

definition checkStatus :: "JsValue \<Rightarrow> Checked" where
  "checkStatus v =
     checkEnum ''status'' (''Le statut doit '' @ e_circ @ ''tre TODO, IN_PROGRESS, DONE ou CANCELLED'')
       [''TODO'', ''IN_PROGRESS'', ''DONE'', ''CANCELLED''] v"

text \<open>\<open>validateCreateTaskData\<close>, which does not look at a status.\<close>

definition validateCreateTaskDataRaw :: "Runtime \<Rightarrow> RawTaskData \<Rightarrow> Checked" where
  "validateCreateTaskDataRaw rt d =
     andThen (checkRequiredLength ''title'' (''Le titre de la t'' @ a_circ @ ''che est requis'')
                2 (''Le titre de la t'' @ a_circ @ ''che doit contenir au moins 2 caract'' @ e_grave @ ''res'')
                200 (''Le titre de la t'' @ a_circ @ ''che ne peut pas d'' @ e_acute @
                     ''passer 200 caract'' @ e_grave @ ''res'')
                (rt_title d))
    (andThen (checkTruthyMax ''description'' 1000
                (''La description ne peut pas d'' @ e_acute @ ''passer 1000 caract'' @ e_grave @ ''res'')
                (rt_description d))
    (andThen (checkPriority (rt_priority d))
    (andThen (checkDueDate rt (rt_dueDate d))
       (if truthy (rt_assigneeIds d) then checkAssigneeIds (rt_assigneeIds d) else Inr []))))"

definition validateUpdateTaskDataRaw :: "Runtime \<Rightarrow> RawTaskData \<Rightarrow> Checked" where
  "validateUpdateTaskDataRaw rt d =
     andThen (checkDefinedLength ''title''
                (''Le titre de la t'' @ a_circ @ ''che ne peut pas '' @ e_circ @ ''tre vide'')
                (''Le titre de la t'' @ a_circ @ ''che doit contenir au moins 2 caract'' @ e_grave @ ''res'')
                200 (''Le titre de la t'' @ a_circ @ ''che ne peut pas d'' @ e_acute @
                     ''passer 200 caract'' @ e_grave @ ''res'')
                (rt_title d))
    (andThen (checkDefinedMax ''description'' 1000
                (''La description ne peut pas d'' @ e_acute @ ''passer 1000 caract'' @ e_grave @ ''res'')
                (rt_description d))
    (andThen (checkStatus (rt_status d))
    (andThen (checkPriority (rt_priority d))
    (andThen (checkDueDate rt (rt_dueDate d))
       (if rt_assigneeIds d \<noteq> Undefined then checkAssigneeIds (rt_assigneeIds d) else Inr [])))))"

definition validateCreateCommentDataRaw :: "JsValue \<Rightarrow> Checked" where
  "validateCreateCommentDataRaw content =
     checkRequiredLength ''content'' ''Le contenu du commentaire est requis''
       1 (''Le contenu du commentaire ne peut pas '' @ e_circ @ ''tre vide'')
       2000 (''Le contenu du commentaire ne peut pas d'' @ e_acute @ ''passer 2000 caract'' @ e_grave @ ''res'')
       content"

definition validateUpdateCommentDataRaw :: "JsValue \<Rightarrow> Checked" where
  "validateUpdateCommentDataRaw content =
     checkRequiredLength ''content'' ''Le contenu du commentaire est requis''
       1 (''Le contenu du commentaire ne peut pas '' @ e_circ @ ''tre vide'')
       2000 (''Le contenu du commentaire ne peut pas d'' @ e_acute @ ''passer 2000 caract'' @ e_grave @ ''res'')
       content"

text \<open>
  A typed request body as a JSON body: an optional field that is left out is
  \<^verbatim>\<open>undefined\<close>.
\<close>

definition optStr :: "jsstring option \<Rightarrow> JsValue" where
  "optStr v = (case v of None \<Rightarrow> Undefined | Some s \<Rightarrow> Str s)"

definition optArr :: "jsstring list option \<Rightarrow> JsValue" where
  "optArr v = (case v of None \<Rightarrow> Undefined | Some xs \<Rightarrow> Arr (map Str xs))"

section \<open>Persisted entities\<close>

text \<open>
  The rows that the controllers read and write through the Prisma client, with the
  columns the controllers use. The database is the list of rows of each table.
\<close>

datatype Role = ADMIN | CONTRIBUTOR

datatype UserProjectRole = OWNER | MEMBER Role

record User =
  u_id :: ident
  u_email :: jsstring

record Project =
  p_id :: ident
  p_name :: jsstring
  p_description :: "jsstring option"
  p_ownerId :: ident

record ProjectMember =
  m_userId :: ident
  m_projectId :: ident
  m_role :: Role

record Task =
  t_id :: ident
  t_title :: jsstring
  t_description :: "jsstring option"
  t_status :: "jsstring option"
  t_priority :: jsstring
  t_dueDate :: "int option"
  t_projectId :: ident
  t_creatorId :: ident
  t_createdAt :: int

record TaskAssignee =
  a_taskId :: ident
  a_userId :: ident

record Comment =
  c_id :: ident
  c_content :: jsstring
  c_taskId :: ident
  c_authorId :: ident
  c_createdAt :: int

record DB =
  users :: "User list"
  projects :: "Project list"
  members :: "ProjectMember list"
  tasks :: "Task list"
  assignees :: "TaskAssignee list"
  comments :: "Comment list"

text \<open>\<^verbatim>\<open>findMany({ orderBy: { createdAt: "asc" | "desc" } })\<close>\<close>

definition orderByAsc :: "('a \<Rightarrow> int) \<Rightarrow> 'a list \<Rightarrow> 'a list" where
  "orderByAsc key rows = sort_key key rows"

definition orderByDesc :: "('a \<Rightarrow> int) \<Rightarrow> 'a list \<Rightarrow> 'a list" where
  "orderByDesc key rows = rev (sort_key key rows)"

definition findProject :: "DB \<Rightarrow> ident \<Rightarrow> Project option" where
  "findProject db projectId = find (\<lambda>p. p_id p = projectId) (projects db)"

definition findMember :: "DB \<Rightarrow> ident \<Rightarrow> ident \<Rightarrow> ProjectMember option" where
  "findMember db userId projectId =
     find (\<lambda>m. m_userId m = userId \<and> m_projectId m = projectId) (members db)"

definition findTask :: "DB \<Rightarrow> ident \<Rightarrow> ident \<Rightarrow> Task option" where
  "findTask db taskId projectId =
     find (\<lambda>t. t_id t = taskId \<and> t_projectId t = projectId) (tasks db)"

text \<open>
  \<^verbatim>\<open>comment.findFirst({ where: { id: commentId, taskId, task: { projectId } } })\<close>
\<close>

definition findComment :: "DB \<Rightarrow> ident \<Rightarrow> ident \<Rightarrow> ident \<Rightarrow> Comment option" where
  "findComment db commentId taskId projectId =
     find (\<lambda>c. c_id c = commentId \<and> c_taskId c = taskId \<and>
               list_ex (\<lambda>t. t_id t = c_taskId c \<and> t_projectId t = projectId) (tasks db))
       (comments db)"

text \<open>
  \<^verbatim>\<open>projectMember.create\<close>: the pair (userId, projectId) is unique
  (\<^verbatim>\<open>userId_projectId\<close>); a second row for the pair makes the client throw, which is
  \<open>None\<close> here.
\<close>

definition createMember :: "DB \<Rightarrow> ProjectMember \<Rightarrow> DB option" where
  "createMember db m =
     (case findMember db (m_userId m) (m_projectId m) of
        Some _ \<Rightarrow> None
      | None \<Rightarrow> Some (db\<lparr>members := members db @ [m]\<rparr>))"

section \<open>Responses (utils/response.ts)\<close>

text \<open>
  What a handler sends: \<^verbatim>\<open>sendSuccess(res, message, data?, status?)\<close>,
  \<^verbatim>\<open>sendError(res, message, code, status)\<close>,
  \<^verbatim>\<open>sendValidationError(res, message, errors)\<close> and
  \<^verbatim>\<open>sendServerError(res, message)\<close>. The status of a success is \<open>None\<close> where the
  handler leaves it to the default of \<^verbatim>\<open>sendSuccess\<close>.
\<close>

datatype Rejection =
    Error string string nat
  | ValidationFailed string "ValidationError list"
  | ServerError string

datatype 'a Response =
    Success string 'a "nat option"
  | Failure Rejection

definition sendError :: "string \<Rightarrow> string \<Rightarrow> nat \<Rightarrow> 'a Response" where
  "sendError msg code status = Failure (Error msg code status)"

definition sendValidationError :: "string \<Rightarrow> ValidationError list \<Rightarrow> 'a Response" where
  "sendValidationError msg errors = Failure (ValidationFailed msg errors)"

definition sendServerError :: "string \<Rightarrow> 'a Response" where
  "sendServerError msg = Failure (ServerError msg)"

fun isSuccess :: "'a Response \<Rightarrow> bool" where
  "isSuccess (Success _ _ _) = True"
| "isSuccess (Failure _) = False"

text \<open>The payload of a success.\<close>

fun responseData :: "'a Response \<Rightarrow> 'a option" where
  "responseData (Success _ d _) = Some d"
| "responseData (Failure _) = None"

text \<open>The code and the status of an error response.\<close>

fun errorCode :: "'a Response \<Rightarrow> (string \<times> nat) option" where
  "errorCode (Failure (Error _ code status)) = Some (code, status)"
| "errorCode _ = None"

definition unauthenticated :: Rejection where
  "unauthenticated = Error (''Utilisateur non authentifi'' @ e_acute) ''UNAUTHORIZED'' 401"

definition accessDenied :: Rejection where
  "accessDenied = Error (''Acc'' @ e_grave @ ''s refus'' @ e_acute @ '' au projet'') ''FORBIDDEN'' 403"

definition cannotModifyProject :: Rejection where
  "cannotModifyProject =
     Error ''Vous n'avez pas les permissions pour modifier ce projet'' ''FORBIDDEN'' 403"

definition cannotRemoveOwner :: Rejection where
  "cannotRemoveOwner =
     Error (''Le propri'' @ e_acute @ ''taire du projet ne peut pas se retirer'') ''CANNOT_REMOVE_OWNER'' 400"

definition taskNotFound :: Rejection where
  "taskNotFound = Error (''T'' @ a_circ @ ''che non trouv'' @ e_acute @ ''e'') ''TASK_NOT_FOUND'' 404"

definition commentNotFound :: Rejection where
  "commentNotFound = Error (''Commentaire non trouv'' @ e_acute) ''COMMENT_NOT_FOUND'' 404"

definition invalidAssignees :: Rejection where
  "invalidAssignees =
     Error (''Certains utilisateurs assign'' @ e_acute @ ''s ne sont pas membres du projet'')
       ''INVALID_ASSIGNEES'' 400"

section \<open>Permission evaluator (utils/permissions.ts)\<close>

text \<open>
  Modelled from the spec: \<^verbatim>\<open>utils/permissions.ts\<close> is not among the sources; only its
  callers are. The predicates follow the table of section 4.1 of the specification and
  the two lookups of its section 6: the ownership lookup \<open>projectId -> ownerId | absent\<close>
  and the membership lookup \<open>(userId, projectId) -> role | absent\<close>.
\<close>

definition ownershipLookup :: "DB \<Rightarrow> ident \<Rightarrow> ident option" where
  "ownershipLookup db projectId = map_option p_ownerId (findProject db projectId)"

definition membershipLookup :: "DB \<Rightarrow> ident \<Rightarrow> ident \<Rightarrow> Role option" where
  "membershipLookup db userId projectId = map_option m_role (findMember db userId projectId)"

definition isProjectOwner :: "DB \<Rightarrow> ident \<Rightarrow> ident \<Rightarrow> bool" where
  "isProjectOwner db userId projectId = (ownershipLookup db projectId = Some userId)"

definition isProjectAdmin :: "DB \<Rightarrow> ident \<Rightarrow> ident \<Rightarrow> bool" where
  "isProjectAdmin db userId projectId = (membershipLookup db userId projectId = Some ADMIN)"

definition hasProjectAccess :: "DB \<Rightarrow> ident \<Rightarrow> ident \<Rightarrow> bool" where
  "hasProjectAccess db userId projectId =
     (isProjectOwner db userId projectId \<or> membershipLookup db userId projectId \<noteq> None)"

definition canModifyProject :: "DB \<Rightarrow> ident \<Rightarrow> ident \<Rightarrow> bool" where
  "canModifyProject db userId projectId =
     (isProjectOwner db userId projectId \<or> isProjectAdmin db userId projectId)"

definition canDeleteProject :: "DB \<Rightarrow> ident \<Rightarrow> ident \<Rightarrow> bool" where
  "canDeleteProject db userId projectId = isProjectOwner db userId projectId"

definition canCreateTasks :: "DB \<Rightarrow> ident \<Rightarrow> ident \<Rightarrow> bool" where
  "canCreateTasks db userId projectId = hasProjectAccess db userId projectId"

definition canModifyTasks :: "DB \<Rightarrow> ident \<Rightarrow> ident \<Rightarrow> bool" where
  "canModifyTasks db userId projectId = hasProjectAccess db userId projectId"

definition getUserProjectRole :: "DB \<Rightarrow> ident \<Rightarrow> ident \<Rightarrow> UserProjectRole option" where
  "getUserProjectRole db userId projectId =
     (if isProjectOwner db userId projectId then Some OWNER
      else map_option MEMBER (membershipLookup db userId projectId))"

text \<open>
  Referential integrity of the storage layer: a membership row belongs to an existing
  project (the rows of a deleted project go with it).
\<close>

definition membersReferToProjects :: "DB \<Rightarrow> bool" where
  "membersReferToProjects db =
     list_all (\<lambda>m. list_ex (\<lambda>p. p_id p = m_projectId m) (projects db)) (members db)"

section \<open>Task assignments (utils/taskAssignments.ts) and comments (utils/taskComments.ts)\<close>

text \<open>
  Modelled from the spec: \<^verbatim>\<open>validateProjectMembers\<close> of \<^verbatim>\<open>utils/taskAssignments.ts\<close>
  is not among the sources. Section 4.1: every id of the proposed assignee list must
  correspond to an existing membership (or the owner) in that exact project.
\<close>

definition validateProjectMembers :: "DB \<Rightarrow> ident \<Rightarrow> ident list \<Rightarrow> bool" where
  "validateProjectMembers db projectId userIds =
     list_all (\<lambda>userId. hasProjectAccess db userId projectId) userIds"

text \<open>
  Modelled from the spec: \<^verbatim>\<open>getTaskAssignments\<close> of \<^verbatim>\<open>utils/taskAssignments.ts\<close>
  is not among the sources; it reads the assignment rows of the task.
\<close>

definition getTaskAssignments :: "DB \<Rightarrow> ident \<Rightarrow> TaskAssignee list" where
  "getTaskAssignments db taskId = filter (\<lambda>a. a_taskId a = taskId) (assignees db)"

definition assigneeSet :: "DB \<Rightarrow> ident \<Rightarrow> ident set" where
  "assigneeSet db taskId = a_userId ` set (getTaskAssignments db taskId)"

text \<open>
  Modelled from the spec: \<^verbatim>\<open>updateTaskAssignments\<close> of \<^verbatim>\<open>utils/taskAssignments.ts\<close>
  is not among the sources. Section 4.2: the declared set replaces the prior set; the
  rows no longer present are deleted, the rows newly present are inserted, unchanged
  rows are left untouched, inside one all-or-nothing transaction. The writes are run
  one after the other; \<open>fault = Some k\<close> is a storage failure at write number \<open>k\<close>
  (from 0), which aborts the transaction: the result is \<open>None\<close> (the call throws) and
  none of its writes is kept.
\<close>

datatype AssignmentWrite = DeleteAssignee ident ident | InsertAssignee ident ident

fun applyWrite :: "AssignmentWrite \<Rightarrow> TaskAssignee list \<Rightarrow> TaskAssignee list" where
  "applyWrite (DeleteAssignee taskId userId) rows =
     filter (\<lambda>a. \<not> (a_taskId a = taskId \<and> a_userId a = userId)) rows"
| "applyWrite (InsertAssignee taskId userId) rows =
     rows @ [\<lparr>a_taskId = taskId, a_userId = userId\<rparr>]"

definition reconciliation :: "ident \<Rightarrow> ident list \<Rightarrow> TaskAssignee list \<Rightarrow> AssignmentWrite list" where
  "reconciliation taskId declared rows =
     (let current = remdups (map a_userId (filter (\<lambda>a. a_taskId a = taskId) rows))
      in map (DeleteAssignee taskId) (filter (\<lambda>u. u \<notin> set declared) current) @
         map (InsertAssignee taskId) (filter (\<lambda>u. u \<notin> set current) (remdups declared)))"

fun runWrites :: "nat option \<Rightarrow> AssignmentWrite list \<Rightarrow> TaskAssignee list \<Rightarrow> TaskAssignee list option" where
  "runWrites fault [] rows = Some rows"
| "runWrites fault (w # ws) rows =
     (if fault = Some 0 then None
      else runWrites (map_option (\<lambda>k. k - 1) fault) ws (applyWrite w rows))"

definition updateTaskAssignments :: "nat option \<Rightarrow> DB \<Rightarrow> ident \<Rightarrow> ident list \<Rightarrow> DB option" where
  "updateTaskAssignments fault db taskId declared =
     (case runWrites fault (reconciliation taskId declared (assignees db)) (assignees db) of
        None \<Rightarrow> None
      | Some rows \<Rightarrow> Some (db\<lparr>assignees := rows\<rparr>))"

text \<open>\<open>getTaskComments\<close> (utils/taskComments.ts): the comments of a task, oldest first.\<close>

definition getTaskComments :: "DB \<Rightarrow> ident \<Rightarrow> Comment list" where
  "getTaskComments db taskId =
     orderByAsc c_createdAt (filter (\<lambda>c. c_taskId c = taskId) (comments db))"

section \<open>Task controller (controllers/taskController.ts)\<close>

text \<open>
  A handler takes the database, the authenticated user that the middleware put on the
  request (\<open>None\<close> when there is none), the route parameters and the body, and gives the
  database it leaves and the response it sends. The \<^verbatim>\<open>include\<close> clauses that join the
  creator, the project or the author onto a row are left out of the payloads.
\<close>

record TaskResponse =
  tr_task :: Task
  tr_assignees :: "TaskAssignee list"
  tr_comments :: "Comment list"

text \<open>\<^verbatim>\<open>description?.trim() || null\<close>\<close>

definition trimOrNull :: "jsstring option \<Rightarrow> jsstring option" where
  "trimOrNull v = (case v of None \<Rightarrow> None | Some t \<Rightarrow> if trim t = [] then None else Some (trim t))"

text \<open>\<^verbatim>\<open>dueDate ? new Date(dueDate) : null\<close>\<close>

definition dateOrNull :: "Runtime \<Rightarrow> jsstring option \<Rightarrow> int option" where
  "dateOrNull rt v = (case v of None \<Rightarrow> None | Some d \<Rightarrow> if d = [] then None else parseDate rt d)"

text \<open>\<^verbatim>\<open>task.create\<close>: the id is the primary key.\<close>

definition createTaskRow :: "DB \<Rightarrow> Task \<Rightarrow> DB option" where
  "createTaskRow db t =
     (if list_ex (\<lambda>x. t_id x = t_id t) (tasks db) then None
      else Some (db\<lparr>tasks := tasks db @ [t]\<rparr>))"

text \<open>
  \<^verbatim>\<open>if (assigneeIds && assigneeIds.length > 0) { if (!(await validateProjectMembers(...))) ... }\<close>
\<close>

definition assigneesRejected :: "DB \<Rightarrow> ident \<Rightarrow> ident list option \<Rightarrow> bool" where
  "assigneesRejected db projectId v =
     (case v of
        None \<Rightarrow> False
      | Some ids \<Rightarrow> ids \<noteq> [] \<and> \<not> validateProjectMembers db projectId ids)"

definition taskResponse :: "DB \<Rightarrow> Task \<Rightarrow> TaskResponse" where
  "taskResponse db t =
     \<lparr>tr_task = t, tr_assignees = getTaskAssignments db (t_id t), tr_comments = getTaskComments db (t_id t)\<rparr>"

text \<open>
  \<open>createTask\<close>. The new row leaves the status to the column's default (\<open>None\<close>); the
  id and the creation time come from the storage layer (\<open>newId\<close>, \<open>now\<close>).
\<close>

definition createTask ::
  "Runtime \<Rightarrow> ident \<Rightarrow> int \<Rightarrow> nat option \<Rightarrow> DB \<Rightarrow> ident option \<Rightarrow> ident \<Rightarrow> CreateTaskRequest
     \<Rightarrow> DB \<times> TaskResponse Response" where
  "createTask rt newId now fault db user projectId req =
     (if projectId = [] then (db, sendError ''ID de projet invalide'' ''INVALID_PROJECT_ID'' 400)
      else (case user of
        None \<Rightarrow> (db, Failure unauthenticated)
      | Some caller \<Rightarrow>
          if validateCreateTaskData rt req \<noteq> []
            then (db, sendValidationError
                   (''Donn'' @ e_acute @ ''es de cr'' @ e_acute @ ''ation de t'' @ a_circ @ ''che invalides'')
                   (validateCreateTaskData rt req))
          else if \<not> hasProjectAccess db caller projectId then (db, Failure accessDenied)
          else (case findProject db projectId of
            None \<Rightarrow> (db, sendError (''Projet non trouv'' @ e_acute) ''PROJECT_NOT_FOUND'' 404)
          | Some project \<Rightarrow>
              if \<not> canCreateTasks db caller projectId
                then (db, sendError (''Vous n'avez pas les permissions pour cr'' @ e_acute @
                        ''er des t'' @ a_circ @ ''ches dans ce projet'') ''FORBIDDEN'' 403)
              else if assigneesRejected db projectId (ct_assigneeIds req)
                then (db, Failure invalidAssignees)
              else (case createTaskRow db
                     \<lparr>t_id = newId, t_title = trim (ct_title req),
                      t_description = trimOrNull (ct_description req),
                      t_status = None,
                      t_priority = (case ct_priority req of
                                      None \<Rightarrow> js ''MEDIUM''
                                    | Some p \<Rightarrow> if p = [] then js ''MEDIUM'' else p),
                      t_dueDate = dateOrNull rt (ct_dueDate req),
                      t_projectId = projectId, t_creatorId = caller, t_createdAt = now\<rparr> of
                None \<Rightarrow> (db, sendServerError (''Erreur lors de la cr'' @ e_acute @ ''ation de la t'' @ a_circ @ ''che''))
              | Some db1 \<Rightarrow>
                  (case (case ct_assigneeIds req of
                           None \<Rightarrow> Some db1
                         | Some ids \<Rightarrow>
                             if ids \<noteq> [] then updateTaskAssignments fault db1 newId ids else Some db1) of
                     None \<Rightarrow> (db1, sendServerError (''Erreur lors de la cr'' @ e_acute @ ''ation de la t'' @ a_circ @ ''che''))
                   | Some db2 \<Rightarrow>
                       (case find (\<lambda>t. t_id t = newId) (tasks db2) of
                          None \<Rightarrow> (db2, sendError (''Erreur lors de la r'' @ e_acute @ ''cup'' @ e_acute @
                                     ''ration de la t'' @ a_circ @ ''che cr'' @ e_acute @ e_acute @ ''e'')
                                     ''TASK_NOT_FOUND'' 404)
                        | Some t \<Rightarrow> (db2, Success (''T'' @ a_circ @ ''che cr'' @ e_acute @ e_acute @
                                       ''e avec succ'' @ e_grave @ ''s'') (taskResponse db2 t) (Some 201))))))))"

definition getTask :: "DB \<Rightarrow> ident option \<Rightarrow> ident \<Rightarrow> ident \<Rightarrow> TaskResponse Response" where
  "getTask db user projectId taskId =
     (case user of
        None \<Rightarrow> Failure unauthenticated
      | Some caller \<Rightarrow>
          if \<not> hasProjectAccess db caller projectId then Failure accessDenied
          else (case findTask db taskId projectId of
            None \<Rightarrow> Failure taskNotFound
          | Some t \<Rightarrow> Success (''T'' @ a_circ @ ''che r'' @ e_acute @ ''cup'' @ e_acute @ ''r'' @ e_acute @
                        ''e avec succ'' @ e_grave @ ''s'') (taskResponse db t) None))"

text \<open>
  \<^verbatim>\<open>task.update({ where: { id: taskId }, data: updateData })\<close>: only the fields the body
  defines are written. Status and priority are enumerations of the schema (the listings
  order by them), so a value outside them, which after validation is the empty string
  only, makes the client throw before anything is written.
\<close>

definition updateTaskRow :: "Runtime \<Rightarrow> UpdateTaskRequest \<Rightarrow> Task \<Rightarrow> Task" where
  "updateTaskRow rt req t =
     t\<lparr>t_title := (case ut_title req of None \<Rightarrow> t_title t | Some x \<Rightarrow> trim x),
       t_description := (case ut_description req of None \<Rightarrow> t_description t | Some x \<Rightarrow> trimOrNull (Some x)),
       t_status := (case ut_status req of None \<Rightarrow> t_status t | Some x \<Rightarrow> Some x),
       t_priority := (case ut_priority req of None \<Rightarrow> t_priority t | Some x \<Rightarrow> x),
       t_dueDate := (case ut_dueDate req of None \<Rightarrow> t_dueDate t | Some x \<Rightarrow> dateOrNull rt (Some x))\<rparr>"

definition enumAccepts :: "string list \<Rightarrow> jsstring option \<Rightarrow> bool" where
  "enumAccepts allowed v = (case v of None \<Rightarrow> True | Some x \<Rightarrow> x \<in> set (map js allowed))"

definition updateTaskRows :: "Runtime \<Rightarrow> DB \<Rightarrow> ident \<Rightarrow> UpdateTaskRequest \<Rightarrow> DB option" where
  "updateTaskRows rt db taskId req =
     (if enumAccepts [''TODO'', ''IN_PROGRESS'', ''DONE'', ''CANCELLED''] (ut_status req) \<and>
         enumAccepts [''LOW'', ''MEDIUM'', ''HIGH'', ''URGENT''] (ut_priority req)
      then Some (db\<lparr>tasks := map (\<lambda>t. if t_id t = taskId then updateTaskRow rt req t else t) (tasks db)\<rparr>)
      else None)"

definition updateTaskFailed :: Rejection where
  "updateTaskFailed = ServerError (''Erreur lors de la mise '' @ a_grave @ '' jour de la t'' @ a_circ @ ''che'')"

definition updateTask ::
  "Runtime \<Rightarrow> nat option \<Rightarrow> DB \<Rightarrow> ident option \<Rightarrow> ident \<Rightarrow> ident \<Rightarrow> UpdateTaskRequest
     \<Rightarrow> DB \<times> TaskResponse Response" where
  "updateTask rt fault db user projectId taskId req =
     (case user of
        None \<Rightarrow> (db, Failure unauthenticated)
      | Some caller \<Rightarrow>
          if validateUpdateTaskData rt req \<noteq> []
            then (db, sendValidationError (''Donn'' @ e_acute @ ''es de mise '' @ a_grave @ '' jour invalides'')
                   (validateUpdateTaskData rt req))
          else if \<not> hasProjectAccess db caller projectId then (db, Failure accessDenied)
          else if \<not> canModifyTasks db caller projectId
            then (db, sendError (''Vous n'avez pas les permissions pour modifier des t'' @ a_circ @
                    ''ches dans ce projet'') ''FORBIDDEN'' 403)
          else (case findTask db taskId projectId of
            None \<Rightarrow> (db, Failure taskNotFound)
          | Some existingTask \<Rightarrow>
              if assigneesRejected db projectId (ut_assigneeIds req)
                then (db, Failure invalidAssignees)
              else (case updateTaskRows rt db taskId req of
                None \<Rightarrow> (db, Failure updateTaskFailed)
              | Some db1 \<Rightarrow>
                  (case (case ut_assigneeIds req of
                           None \<Rightarrow> Some db1
                         | Some ids \<Rightarrow> updateTaskAssignments fault db1 taskId ids) of
                     None \<Rightarrow> (db1, Failure updateTaskFailed)
                   | Some db2 \<Rightarrow>
                       (db2, Success (''T'' @ a_circ @ ''che mise '' @ a_grave @ '' jour avec succ'' @ e_grave @ ''s'')
                          \<lparr>tr_task = updateTaskRow rt req existingTask,
                           tr_assignees = getTaskAssignments db2 taskId,
                           tr_comments = getTaskComments db2 taskId\<rparr> None)))))"

section \<open>Project controller (controllers/projectController.ts)\<close>

record ProjectSummary =
  ps_project :: Project
  ps_members :: "ProjectMember list"
  ps_taskCount :: nat

definition projectSummary :: "DB \<Rightarrow> Project \<Rightarrow> ProjectSummary" where
  "projectSummary db p =
     \<lparr>ps_project = p,
      ps_members = filter (\<lambda>m. m_projectId m = p_id p) (members db),
      ps_taskCount = length (filter (\<lambda>t. t_projectId t = p_id p) (tasks db))\<rparr>"

text \<open>\<^verbatim>\<open>project.create\<close>: the id is the primary key.\<close>

definition createProjectRow :: "DB \<Rightarrow> Project \<Rightarrow> DB option" where
  "createProjectRow db p =
     (if list_ex (\<lambda>x. p_id x = p_id p) (projects db) then None
      else Some (db\<lparr>projects := projects db @ [p]\<rparr>))"

text \<open>
  One turn of the loop over \<^verbatim>\<open>contributorUsers\<close>: the \<^verbatim>\<open>catch\<close> around
  \<^verbatim>\<open>projectMember.create\<close> only logs, so a refused insertion leaves the database as it
  was and the loop goes on.
\<close>

definition addContributorRow :: "ident \<Rightarrow> User \<Rightarrow> DB \<Rightarrow> DB" where
  "addContributorRow projectId u db =
     (case createMember db \<lparr>m_userId = u_id u, m_projectId = projectId, m_role = CONTRIBUTOR\<rparr> of
        None \<Rightarrow> db
      | Some db' \<Rightarrow> db')"

text \<open>\<^verbatim>\<open>user.findMany({ where: { email: { in: contributors.map(e => e.toLowerCase()) } } })\<close>\<close>

definition contributorUsers :: "Runtime \<Rightarrow> DB \<Rightarrow> jsstring list \<Rightarrow> User list" where
  "contributorUsers rt db contributors =
     filter (\<lambda>u. u_email u \<in> set (map (toLowerCase rt) contributors)) (users db)"

definition createProject ::
  "Runtime \<Rightarrow> ident \<Rightarrow> DB \<Rightarrow> ident option \<Rightarrow> CreateProjectData \<Rightarrow> DB \<times> ProjectSummary option Response" where
  "createProject rt newId db user req =
     (case user of
        None \<Rightarrow> (db, Failure unauthenticated)
      | Some caller \<Rightarrow>
          if validateCreateProjectData req \<noteq> []
            then (db, sendValidationError (''Donn'' @ e_acute @ ''es de cr'' @ e_acute @ ''ation de projet invalides'')
                   (validateCreateProjectData req))
          else (case createProjectRow db
                 \<lparr>p_id = newId, p_name = trim (cp_name req),
                  p_description = trimOrNull (cp_description req), p_ownerId = caller\<rparr> of
            None \<Rightarrow> (db, sendServerError (''Erreur lors de la cr'' @ e_acute @ ''ation du projet''))
          | Some db1 \<Rightarrow>
              (let db2 = (case cp_contributors req of
                            None \<Rightarrow> db1
                          | Some contributors \<Rightarrow>
                              if contributors \<noteq> []
                              then fold (addContributorRow newId) (contributorUsers rt db1 contributors) db1
                              else db1)
               in (db2, Success (''Projet cr'' @ e_acute @ e_acute @ '' avec succ'' @ e_grave @ ''s'')
                          (map_option (projectSummary db2) (findProject db2 newId)) (Some 201)))))"

record ProjectDetails =
  pd_project :: Project
  pd_members :: "ProjectMember list"
  pd_tasks :: "TaskResponse list"
  pd_taskCount :: nat
  pd_userRole :: "UserProjectRole option"

text \<open>
  The \<^verbatim>\<open>tasks\<close> relation that \<open>getProject\<close> includes: tasks and, inside each task, its
  comments, both with \<^verbatim>\<open>orderBy: { createdAt: "desc" }\<close>.
\<close>

definition projectTasks :: "DB \<Rightarrow> ident \<Rightarrow> TaskResponse list" where
  "projectTasks db projectId =
     map (\<lambda>t. \<lparr>tr_task = t,
               tr_assignees = filter (\<lambda>a. a_taskId a = t_id t) (assignees db),
               tr_comments = orderByDesc c_createdAt (filter (\<lambda>c. c_taskId c = t_id t) (comments db))\<rparr>)
       (orderByDesc t_createdAt (filter (\<lambda>t. t_projectId t = projectId) (tasks db)))"

definition getProject :: "DB \<Rightarrow> ident option \<Rightarrow> ident \<Rightarrow> ProjectDetails Response" where
  "getProject db user projectId =
     (case user of
        None \<Rightarrow> Failure unauthenticated
      | Some caller \<Rightarrow>
          if \<not> hasProjectAccess db caller projectId then Failure accessDenied
          else (case findProject db projectId of
            None \<Rightarrow> sendError (''Projet non trouv'' @ e_acute) ''PROJECT_NOT_FOUND'' 404
          | Some p \<Rightarrow>
              Success (''Projet r'' @ e_acute @ ''cup'' @ e_acute @ ''r'' @ e_acute @ '' avec succ'' @ e_grave @ ''s'')
                \<lparr>pd_project = p,
                 pd_members = filter (\<lambda>m. m_projectId m = projectId) (members db),
                 pd_tasks = projectTasks db projectId,
                 pd_taskCount = length (filter (\<lambda>t. t_projectId t = projectId) (tasks db)),
                 pd_userRole = getUserProjectRole db caller projectId\<rparr> None))"

definition updateProjectRow :: "UpdateProjectData \<Rightarrow> Project \<Rightarrow> Project" where
  "updateProjectRow req p =
     p\<lparr>p_name := (case up_name req of None \<Rightarrow> p_name p | Some x \<Rightarrow> trim x),
       p_description := (case up_description req of None \<Rightarrow> p_description p | Some x \<Rightarrow> trimOrNull (Some x))\<rparr>"

text \<open>
  \<open>updateProject\<close> validates the name and the description of the body only.
  \<^verbatim>\<open>project.update\<close> throws when no row has the id.
\<close>

definition updateProject ::
  "DB \<Rightarrow> ident option \<Rightarrow> ident \<Rightarrow> UpdateProjectData \<Rightarrow> DB \<times> ProjectSummary Response" where
  "updateProject db user projectId req =
     (case user of
        None \<Rightarrow> (db, Failure unauthenticated)
      | Some caller \<Rightarrow>
          if validateUpdateProjectData (req\<lparr>up_contributors := None\<rparr>) \<noteq> []
            then (db, sendValidationError (''Donn'' @ e_acute @ ''es de mise '' @ a_grave @ '' jour invalides'')
                   (validateUpdateProjectData (req\<lparr>up_contributors := None\<rparr>)))
          else if \<not> canModifyProject db caller projectId then (db, Failure cannotModifyProject)
          else (case findProject db projectId of
            None \<Rightarrow> (db, sendServerError (''Erreur lors de la mise '' @ a_grave @ '' jour du projet''))
          | Some p \<Rightarrow>
              (let db1 = db\<lparr>projects := map (\<lambda>x. if p_id x = projectId then updateProjectRow req x else x)
                                          (projects db)\<rparr>
               in (db1, Success (''Projet mis '' @ a_grave @ '' jour avec succ'' @ e_grave @ ''s'')
                          (projectSummary db1 (updateProjectRow req p)) None))))"

record AddContributorRequest =
  ac_email :: jsstring
  ac_role :: "Role option"

definition addContributor ::
  "Runtime \<Rightarrow> DB \<Rightarrow> ident option \<Rightarrow> ident \<Rightarrow> AddContributorRequest \<Rightarrow> DB \<times> unit Response" where
  "addContributor rt db user projectId req =
     (case user of
        None \<Rightarrow> (db, Failure unauthenticated)
      | Some caller \<Rightarrow>
          if \<not> canModifyProject db caller projectId then (db, Failure cannotModifyProject)
          else (case find (\<lambda>u. u_email u = toLowerCase rt (ac_email req)) (users db) of
            None \<Rightarrow> (db, sendError (''Utilisateur non trouv'' @ e_acute) ''USER_NOT_FOUND'' 404)
          | Some u \<Rightarrow>
              (case findMember db (u_id u) projectId of
                 Some existingMember \<Rightarrow>
                   (db, sendError (''L'utilisateur est d'' @ e_acute @ ''j'' @ a_grave @ '' membre de ce projet'')
                          ''USER_ALREADY_MEMBER'' 409)
               | None \<Rightarrow>
                   (case createMember db
                           \<lparr>m_userId = u_id u, m_projectId = projectId,
                            m_role = (case ac_role req of None \<Rightarrow> CONTRIBUTOR | Some r \<Rightarrow> r)\<rparr> of
                      None \<Rightarrow> (db, sendServerError ''Erreur lors de l'ajout du contributeur'')
                    | Some db1 \<Rightarrow>
                        (db1, Success (''Contributeur ajout'' @ e_acute @ '' avec succ'' @ e_grave @ ''s'') () None)))))"

text \<open>
  \<open>removeContributor\<close>. The source's comment on the second check: verify that the user
  does not try to remove themself when they are the owner.
\<close>

definition removeContributor :: "DB \<Rightarrow> ident option \<Rightarrow> ident \<Rightarrow> ident \<Rightarrow> DB \<times> unit Response" where
  "removeContributor db user projectId userId =
     (case user of
        None \<Rightarrow> (db, Failure unauthenticated)
      | Some caller \<Rightarrow>
          if \<not> canModifyProject db caller projectId then (db, Failure cannotModifyProject)
          else if isProjectOwner db caller projectId \<and> caller = userId
            then (db, Failure cannotRemoveOwner)
          else (db\<lparr>members := filter (\<lambda>m. \<not> (m_userId m = userId \<and> m_projectId m = projectId)) (members db)\<rparr>,
                Success (''Contributeur retir'' @ e_acute @ '' avec succ'' @ e_grave @ ''s'') () None))"




section \<open>Comment controller (controllers/commentController.ts)\<close>

definition getComments :: "DB \<Rightarrow> ident option \<Rightarrow> ident \<Rightarrow> ident \<Rightarrow> Comment list Response" where
  "getComments db user projectId taskId =
     (case user of
        None \<Rightarrow> Failure unauthenticated
      | Some caller \<Rightarrow>
          if \<not> hasProjectAccess db caller projectId then Failure accessDenied
          else (case findTask db taskId projectId of
            None \<Rightarrow> Failure taskNotFound
          | Some t \<Rightarrow>
              Success (''Commentaires r'' @ e_acute @ ''cup'' @ e_acute @ ''r'' @ e_acute @ ''s avec succ'' @ e_grave @ ''s'')
                (orderByAsc c_createdAt (filter (\<lambda>c. c_taskId c = taskId) (comments db))) None))"

definition updateComment ::
  "DB \<Rightarrow> ident option \<Rightarrow> ident \<Rightarrow> ident \<Rightarrow> ident \<Rightarrow> jsstring \<Rightarrow> DB \<times> Comment Response" where
  "updateComment db user projectId taskId commentId content =
     (case user of
        None \<Rightarrow> (db, Failure unauthenticated)
      | Some caller \<Rightarrow>
          if validateUpdateCommentData content \<noteq> []
            then (db, sendValidationError (''Donn'' @ e_acute @ ''es de mise '' @ a_grave @ '' jour invalides'')
                   (validateUpdateCommentData content))
          else if \<not> hasProjectAccess db caller projectId then (db, Failure accessDenied)
          else (case findComment db commentId taskId projectId of
            None \<Rightarrow> (db, Failure commentNotFound)
          | Some existingComment \<Rightarrow>
              if c_authorId existingComment \<noteq> caller
                then (db, sendError ''Vous ne pouvez modifier que vos propres commentaires'' ''FORBIDDEN'' 403)
              else (db\<lparr>comments := map (\<lambda>c. if c_id c = commentId then c\<lparr>c_content := trim content\<rparr> else c)
                                      (comments db)\<rparr>,
                    Success (''Commentaire mis '' @ a_grave @ '' jour avec succ'' @ e_grave @ ''s'')
                      (existingComment\<lparr>c_content := trim content\<rparr>) None)))"

definition deleteComment ::
  "DB \<Rightarrow> ident option \<Rightarrow> ident \<Rightarrow> ident \<Rightarrow> ident \<Rightarrow> DB \<times> unit Response" where
  "deleteComment db user projectId taskId commentId =
     (case user of
        None \<Rightarrow> (db, Failure unauthenticated)
      | Some caller \<Rightarrow>
          if \<not> hasProjectAccess db caller projectId then (db, Failure accessDenied)
          else (case findComment db commentId taskId projectId of
            None \<Rightarrow> (db, Failure commentNotFound)
          | Some existingComment \<Rightarrow>
              if c_authorId existingComment \<noteq> caller \<and> \<not> canModifyTasks db caller projectId
                then (db, sendError ''Vous ne pouvez supprimer que vos propres commentaires'' ''FORBIDDEN'' 403)
              else (db\<lparr>comments := filter (\<lambda>c. c_id c \<noteq> commentId) (comments db)\<rparr>,
                    Success (''Commentaire supprim'' @ e_acute @ '' avec succ'' @ e_grave @ ''s'') () None)))"

section \<open>Databases that the handlers can produce\<close>



section \<open>A concrete project\<close>

text \<open>
  The runtime of the examples lower-cases the ASCII letters, which is what
  \<^verbatim>\<open>toLowerCase\<close> does on the ASCII strings used below, and is given no date.
\<close>

definition asciiRuntime :: Runtime where
  "asciiRuntime =
     \<lparr>parseDate = (\<lambda>s. None), toISOString = (\<lambda>t. []),
      toLowerCase = map (\<lambda>c. if isUpper c then c + 32 else c)\<rparr>"

text \<open>
  Project \<open>p1\<close> is owned by \<open>u1\<close>; \<open>u2\<close> is an admin and \<open>u3\<close> a contributor; \<open>u4\<close>
  wrote a comment while a member and has no relation to the project any more. Task
  \<open>t1\<close> is assigned to \<open>u2\<close> and \<open>u3\<close>.
\<close>

definition exampleUsers :: "User list" where
  "exampleUsers =
     [\<lparr>u_id = ''u1'', u_email = js ''alice@example.com''\<rparr>,
      \<lparr>u_id = ''u2'', u_email = js ''bob@example.com''\<rparr>,
      \<lparr>u_id = ''u3'', u_email = js ''caroline@example.com''\<rparr>,
      \<lparr>u_id = ''u4'', u_email = js ''david@example.com''\<rparr>]"

definition exampleDb :: DB where
  "exampleDb =
     \<lparr>users = exampleUsers,
      projects = [\<lparr>p_id = ''p1'', p_name = js ''Abricot'', p_description = None, p_ownerId = ''u1''\<rparr>],
      members = [\<lparr>m_userId = ''u2'', m_projectId = ''p1'', m_role = ADMIN\<rparr>,
                 \<lparr>m_userId = ''u3'', m_projectId = ''p1'', m_role = CONTRIBUTOR\<rparr>],
      tasks = [\<lparr>t_id = ''t1'', t_title = js ''Maquette'', t_description = None, t_status = Some (js ''TODO''),
                t_priority = js ''MEDIUM'', t_dueDate = None, t_projectId = ''p1'',
                t_creatorId = ''u1'', t_createdAt = 10\<rparr>],
      assignees = [\<lparr>a_taskId = ''t1'', a_userId = ''u2''\<rparr>, \<lparr>a_taskId = ''t1'', a_userId = ''u3''\<rparr>],
      comments = [\<lparr>c_id = ''c1'', c_content = js ''Premier'', c_taskId = ''t1'', c_authorId = ''u3'',
                   c_createdAt = 100\<rparr>,
                  \<lparr>c_id = ''c2'', c_content = js ''Second'', c_taskId = ''t1'', c_authorId = ''u4'',
                   c_createdAt = 200\<rparr>]\<rparr>"

definition noChange :: UpdateTaskRequest where
  "noChange =
     \<lparr>ut_title = None, ut_description = None, ut_status = None, ut_priority = None,
      ut_dueDate = None, ut_assigneeIds = None\<rparr>"

text \<open>
  The database with the four users and nothing else, and the request by which \<open>u1\<close>
  creates a project listing their own email among the contributors.
\<close>

definition usersOnlyDb :: DB where
  "usersOnlyDb =
     \<lparr>users = exampleUsers, projects = [], members = [], tasks = [], assignees = [], comments = []\<rparr>"

definition ownerListsThemself :: CreateProjectData where
  "ownerListsThemself =
     \<lparr>cp_name = js ''Abricot'', cp_description = None,
      cp_contributors = Some [js ''Alice@Example.com'', js ''caroline@example.com'', js ''nobody@example.com'']\<rparr>"

text \<open>
  The database that \<open>createProject\<close> leaves when \<open>u1\<close> sends \<open>ownerListsThemself\<close> to
  \<open>usersOnlyDb\<close> and the new project gets the id \<open>p1\<close>.
\<close>

definition ownerListedDb :: DB where
  "ownerListedDb =
     \<lparr>users = exampleUsers,
      projects = [\<lparr>p_id = ''p1'', p_name = js ''Abricot'', p_description = None, p_ownerId = ''u1''\<rparr>],
      members = [\<lparr>m_userId = ''u1'', m_projectId = ''p1'', m_role = CONTRIBUTOR\<rparr>,
                 \<lparr>m_userId = ''u3'', m_projectId = ''p1'', m_role = CONTRIBUTOR\<rparr>],
      tasks = [], assignees = [], comments = []\<rparr>"

definition renameProject :: UpdateProjectData where
  "renameProject = \<lparr>up_name = Some (js ''Abricot 2''), up_description = None, up_contributors = None\<rparr>"

text \<open>Requests on task \<open>t1\<close>: a new assignee set, and a new task.\<close>

definition reassign :: UpdateTaskRequest where
  "reassign = noChange\<lparr>ut_assigneeIds := Some [''u3'', ''u1'']\<rparr>"

definition newTask :: CreateTaskRequest where
  "newTask = \<lparr>ct_title = js ''Recette'', ct_description = None, ct_priority = None, ct_dueDate = None,
               ct_assigneeIds = None\<rparr>"

text \<open>The emails that the body of \<open>createProject\<close> lists.\<close>

definition listedContributors :: "CreateProjectData \<Rightarrow> jsstring list" where
  "listedContributors req = (case cp_contributors req of None \<Rightarrow> [] | Some cs \<Rightarrow> cs)"

section \<open>What a validator has to report\<close>



text \<open>
  On any JSON body: whether a validator returned, and the field names of what it
  returned; the string of a string value, its trimmed text, and the text that a regular
  expression sees.
\<close>

definition returns :: "JsError + 'a \<Rightarrow> bool" where
  "returns r = (case r of Inl e \<Rightarrow> False | Inr x \<Rightarrow> True)"

definition fieldsOf :: "Checked \<Rightarrow> string list option" where
  "fieldsOf r = (case r of Inl e \<Rightarrow> None | Inr errors \<Rightarrow> Some (map field errors))"

definition stringOf :: "JsValue \<Rightarrow> jsstring option" where
  "stringOf v = (case v of Str s \<Rightarrow> Some s | _ \<Rightarrow> None)"

text \<open>
  The values on which a validator returns: \<open>textual\<close>, a string or absent, for a field
  that is trimmed whenever it is present; \<open>trimmable\<close>, a string or falsy, for a field
  that is trimmed when it is truthy; \<open>printable\<close>, falsy or with a text, for a field that
  a regular expression or \<^verbatim>\<open>new Date\<close> reads when it is truthy.
\<close>

definition textual :: "JsValue \<Rightarrow> bool" where
  "textual v = (v = Undefined \<or> stringOf v \<noteq> None)"

definition trimmable :: "JsValue \<Rightarrow> bool" where
  "trimmable v = (truthy v \<longrightarrow> stringOf v \<noteq> None)"







text \<open>The typed request bodies as JSON bodies.\<close>

definition optIds :: "ident list option \<Rightarrow> JsValue" where
  "optIds v = (case v of None \<Rightarrow> Undefined | Some ids \<Rightarrow> Arr (map (\<lambda>userId. Str (js userId)) ids))"

definition rawRegister :: "RegisterData \<Rightarrow> RawRegisterData" where
  "rawRegister d = \<lparr>rr_email = Str (rd_email d), rr_password = Str (rd_password d), rr_name = optStr (rd_name d)\<rparr>"

definition rawLogin :: "LoginData \<Rightarrow> RawLoginData" where
  "rawLogin d = \<lparr>rl_email = Str (ld_email d), rl_password = Str (ld_password d)\<rparr>"

definition rawProfile :: "UpdateProfileData \<Rightarrow> RawUpdateProfileData" where
  "rawProfile d = \<lparr>rp_name = optStr (pr_name d), rp_email = optStr (pr_email d)\<rparr>"

definition rawPassword :: "UpdatePasswordData \<Rightarrow> RawUpdatePasswordData" where
  "rawPassword d =
     \<lparr>rw_currentPassword = Str (pw_currentPassword d), rw_newPassword = Str (pw_newPassword d)\<rparr>"

definition rawCreateProject :: "CreateProjectData \<Rightarrow> RawProjectData" where
  "rawCreateProject d =
     \<lparr>rj_name = Str (cp_name d), rj_description = optStr (cp_description d),
      rj_contributors = optArr (cp_contributors d)\<rparr>"

definition rawUpdateProject :: "UpdateProjectData \<Rightarrow> RawProjectData" where
  "rawUpdateProject d =
     \<lparr>rj_name = optStr (up_name d), rj_description = optStr (up_description d),
      rj_contributors = optArr (up_contributors d)\<rparr>"

definition rawCreateTask :: "CreateTaskRequest \<Rightarrow> RawTaskData" where
  "rawCreateTask d =
     \<lparr>rt_title = Str (ct_title d), rt_description = optStr (ct_description d), rt_status = Undefined,
      rt_priority = optStr (ct_priority d), rt_dueDate = optStr (ct_dueDate d),
      rt_assigneeIds = optIds (ct_assigneeIds d)\<rparr>"

definition rawUpdateTask :: "UpdateTaskRequest \<Rightarrow> RawTaskData" where
  "rawUpdateTask d =
     \<lparr>rt_title = optStr (ut_title d), rt_description = optStr (ut_description d),
      rt_status = optStr (ut_status d), rt_priority = optStr (ut_priority d),
      rt_dueDate = optStr (ut_dueDate d), rt_assigneeIds = optIds (ut_assigneeIds d)\<rparr>"

section \<open>Properties\<close>

lemma isValidEmail_empty: "\<not> isValidEmail []"
  by (simp add: isValidEmail_def)

lemma isValidPassword_empty: "\<not> isValidPassword []"
  by (simp add: isValidPassword_def)

subsection \<open>Validation\<close>

lemma returns_simps [simp]: "returns (Inr x)" "\<not> returns (Inl e)"
  by (simp_all add: returns_def)

lemma fieldsOf_simps [simp]: "fieldsOf (Inr es) = Some (map field es)" "fieldsOf (Inl e) = None"
  by (simp_all add: fieldsOf_def)

lemma field_entry [simp]: "map field (entry name msg) = [name]"
  by (simp add: entry_def)

lemma returns_andThen [simp]: "returns (andThen a b) \<longleftrightarrow> returns a \<and> returns b"
  by (simp add: andThen_def returns_def split: sum.splits)


lemma textual_cases: "textual v \<longleftrightarrow> v = Undefined \<or> (\<exists>s. v = Str s)"
  by (cases v) (simp_all add: textual_def stringOf_def)

lemma trimmable_cases: "trimmable v \<longleftrightarrow> \<not> truthy v \<or> (\<exists>s. v = Str s)"
  by (cases v) (simp_all add: trimmable_def stringOf_def)



















































lemma forEachFrom_typed:
  assumes "\<And>x. bad (f x) = Inr (bad' x)"
  shows "forEachFrom n bad name msg (map f xs) =
           Inr (concat (map (\<lambda>(index, x).
                  if bad' x then [\<lparr>field = name @ ''['' @ showIndex index @ '']'', message = msg\<rparr>] else [])
                 (enumerate n xs)))"
  by (induction xs arbitrary: n) (simp_all add: assms andThen_def whenOk_def entry_def del: showIndex.simps)

lemma array_typed:
  assumes "\<And>x. bad (f x) = Inr (bad' x)"
  shows "checkArray name notArray bad msg (Arr (map f xs)) = Inr (forEachIndexed bad' name msg xs)"
  by (simp add: checkArray_def forEachIndexed_def forEachFrom_typed [where bad' = bad', OF assms]
      del: showIndex.simps)

lemma contributors_typed:
  "checkContributors (Arr (map Str cs)) =
     Inr (forEachIndexed (\<lambda>email. \<not> isValidEmail email) ''contributors'' ''Format d'email invalide'' cs)"
  unfolding checkContributors_def
  by (rule array_typed) (simp add: negated_def testEmail_def)

lemma assigneeIds_typed:
  "checkAssigneeIds (Arr (map (\<lambda>userId. Str (js userId)) ids)) =
     Inr (forEachIndexed (\<lambda>userId. userId = []) ''assigneeIds''
            (''L'ID de l'utilisateur assign'' @ e_acute @ '' est invalide'') ids)"
  unfolding checkAssigneeIds_def
  by (rule array_typed) (simp add: badUserId_def js_def)

lemma andThen_Inr: "andThen (Inr xs) (Inr ys) = Inr (xs @ ys)"
  by (simp add: andThen_def)

lemma requiredLength_typed:
  "checkRequiredLength name required lo short hi long (Str s) =
     Inr (if s = [] then [\<lparr>field = name, message = required\<rparr>]
          else if length (trim s) < lo then [\<lparr>field = name, message = short\<rparr>]
          else if length (trim s) > hi then [\<lparr>field = name, message = long\<rparr>]
          else [])"
  by (simp add: checkRequiredLength_def whenOk_def entry_def)

lemma definedLength_typed:
  "checkDefinedLength name blank short hi long (optStr v) =
     Inr (case v of
            None \<Rightarrow> []
          | Some t \<Rightarrow>
              if trim t = [] then [\<lparr>field = name, message = blank\<rparr>]
              else if length (trim t) < 2 then [\<lparr>field = name, message = short\<rparr>]
              else if length (trim t) > hi then [\<lparr>field = name, message = long\<rparr>]
              else [])"
  by (simp add: checkDefinedLength_def whenOk_def entry_def optStr_def split: option.splits)

lemma truthyMax_typed:
  "checkTruthyMax name hi long (optStr v) =
     Inr (case v of
            None \<Rightarrow> []
          | Some t \<Rightarrow> if t \<noteq> [] \<and> length (trim t) > hi then [\<lparr>field = name, message = long\<rparr>] else [])"
  by (simp add: checkTruthyMax_def whenOk_def entry_def optStr_def split: option.splits)

lemma definedMax_typed:
  "checkDefinedMax name hi long (optStr v) =
     Inr (case v of
            None \<Rightarrow> []
          | Some t \<Rightarrow> if length (trim t) > hi then [\<lparr>field = name, message = long\<rparr>] else [])"
  by (simp add: checkDefinedMax_def whenOk_def entry_def optStr_def split: option.splits)

lemma requiredFormat_typed:
  "checkRequiredFormat name required testEmail invalid (Str s) =
     Inr (if s = [] then [\<lparr>field = name, message = required\<rparr>]
          else if \<not> isValidEmail s then [\<lparr>field = name, message = invalid\<rparr>] else [])"
  "checkRequiredFormat name required testPassword invalid (Str s) =
     Inr (if s = [] then [\<lparr>field = name, message = required\<rparr>]
          else if \<not> isValidPassword s then [\<lparr>field = name, message = invalid\<rparr>] else [])"
  by (simp_all add: checkRequiredFormat_def whenOk_def testEmail_def testPassword_def entry_def)

lemma required_typed:
  "checkRequired name required (Str s) = Inr (if s = [] then [\<lparr>field = name, message = required\<rparr>] else [])"
  by (simp add: checkRequired_def entry_def)

lemma enum_typed: "checkEnum name msg allowed (optStr v) = Inr (enumErrors name msg allowed v)"
  by (simp add: checkEnum_def enumErrors_def arrayIncludes_def entry_def optStr_def split: option.splits)

lemma dueDate_typed: "checkDueDate rt (optStr v) = Inr (dueDateErrors rt v)"
  by (simp add: checkDueDate_def dueDateErrors_def testDate_def whenOk_def entry_def optStr_def
      split: option.splits)

lemma contributors_typed_opt:
  "(if truthy (optArr v) then checkContributors (optArr v) else Inr []) =
     Inr (case v of
            None \<Rightarrow> []
          | Some cs \<Rightarrow> forEachIndexed (\<lambda>email. \<not> isValidEmail email) ''contributors''
                        ''Format d'email invalide'' cs)"
  "(if optArr v \<noteq> Undefined then checkContributors (optArr v) else Inr []) =
     Inr (case v of
            None \<Rightarrow> []
          | Some cs \<Rightarrow> forEachIndexed (\<lambda>email. \<not> isValidEmail email) ''contributors''
                        ''Format d'email invalide'' cs)"
  by (cases v; simp add: optArr_def contributors_typed)+

lemma assigneeIds_typed_opt:
  "(if truthy (optIds v) then checkAssigneeIds (optIds v) else Inr []) = Inr (assigneeIdsErrors v)"
  "(if optIds v \<noteq> Undefined then checkAssigneeIds (optIds v) else Inr []) = Inr (assigneeIdsErrors v)"
  by (cases v; simp add: optIds_def assigneeIdsErrors_def assigneeIds_typed)+

lemma register_name_typed:
  "(if truthy (optStr v)
    then whenOk (trimOf (optStr v)) (\<lambda>t. if length t < 2 then entry ''name'' short else [])
    else Inr []) =
   Inr (case v of
          None \<Rightarrow> []
        | Some n \<Rightarrow> if n \<noteq> [] \<and> length (trim n) < 2 then [\<lparr>field = ''name'', message = short\<rparr>] else [])"
  by (cases v) (simp_all add: optStr_def whenOk_def entry_def)

lemma profile_typed_blocks:
  "(if optStr v \<noteq> Undefined
    then (case trimOf (optStr v) of
            Inl e \<Rightarrow> Inl e
          | Inr t \<Rightarrow>
              if t = [] then Inr (entry ''email'' blank)
              else whenOk (testEmail (optStr v)) (\<lambda>ok. if \<not> ok then entry ''email'' invalid else []))
    else Inr []) =
   Inr (case v of
          None \<Rightarrow> []
        | Some e \<Rightarrow>
            if trim e = [] then [\<lparr>field = ''email'', message = blank\<rparr>]
            else if \<not> isValidEmail e then [\<lparr>field = ''email'', message = invalid\<rparr>]
            else [])"
  "(if optStr w \<noteq> Undefined
    then whenOk (trimOf (optStr w)) (\<lambda>t. if length t < 2 then entry ''name'' short else [])
    else Inr []) =
   Inr (case w of
          None \<Rightarrow> []
        | Some n \<Rightarrow> if length (trim n) < 2 then [\<lparr>field = ''name'', message = short\<rparr>] else [])"
  by (cases v; cases w; simp add: optStr_def whenOk_def testEmail_def entry_def)+

lemma register_typed: "validateRegisterDataRaw (rawRegister d) = Inr (validateRegisterData d)"
  by (simp only: validateRegisterDataRaw_def rawRegister_def RawRegisterData.simps requiredFormat_typed
      register_name_typed andThen_Inr validateRegisterData_def registerEmailErrors_def
      registerPasswordErrors_def registerNameErrors_def)

lemma login_typed: "validateLoginDataRaw (rawLogin d) = Inr (validateLoginData d)"
  by (simp only: validateLoginDataRaw_def rawLogin_def RawLoginData.simps required_typed andThen_Inr
      validateLoginData_def)

lemma profile_typed: "validateUpdateProfileDataRaw (rawProfile d) = Inr (validateUpdateProfileData d)"
  by (simp only: validateUpdateProfileDataRaw_def rawProfile_def RawUpdateProfileData.simps
      profile_typed_blocks andThen_Inr validateUpdateProfileData_def)

lemma password_typed: "validateUpdatePasswordDataRaw (rawPassword d) = Inr (validateUpdatePasswordData d)"
  by (simp add: validateUpdatePasswordDataRaw_def rawPassword_def validateUpdatePasswordData_def
      checkRequired_def checkRequiredFormat_def whenOk_def andThen_def testPassword_def entry_def)

lemma createProject_typed:
  "validateCreateProjectDataRaw (rawCreateProject d) = Inr (validateCreateProjectData d)"
  by (simp only: validateCreateProjectDataRaw_def rawCreateProject_def RawProjectData.simps
      requiredLength_typed truthyMax_typed contributors_typed_opt andThen_Inr
      validateCreateProjectData_def)

lemma updateProject_typed:
  "validateUpdateProjectDataRaw (rawUpdateProject d) = Inr (validateUpdateProjectData d)"
  by (simp only: validateUpdateProjectDataRaw_def rawUpdateProject_def RawProjectData.simps
      definedLength_typed definedMax_typed contributors_typed_opt andThen_Inr
      validateUpdateProjectData_def)

lemma createTask_typed:
  "validateCreateTaskDataRaw rt (rawCreateTask d) = Inr (validateCreateTaskData rt d)"
  by (simp only: validateCreateTaskDataRaw_def rawCreateTask_def RawTaskData.simps
      requiredLength_typed truthyMax_typed checkPriority_def priorityErrors_def enum_typed dueDate_typed
      assigneeIds_typed_opt andThen_Inr validateCreateTaskData_def titleLengthErrors_def)

lemma updateTask_typed:
  "validateUpdateTaskDataRaw rt (rawUpdateTask d) = Inr (validateUpdateTaskData rt d)"
  by (simp only: validateUpdateTaskDataRaw_def rawUpdateTask_def RawTaskData.simps
      definedLength_typed definedMax_typed checkPriority_def priorityErrors_def checkStatus_def
      statusErrors_def enum_typed dueDate_typed assigneeIds_typed_opt andThen_Inr
      validateUpdateTaskData_def titleLengthErrors_def)

lemma comment_typed:
  "validateCreateCommentDataRaw (Str content) = Inr (validateCreateCommentData content)"
  "validateUpdateCommentDataRaw (Str content) = Inr (validateUpdateCommentData content)"
  by (simp_all only: validateCreateCommentDataRaw_def validateUpdateCommentDataRaw_def
      validateCreateCommentData_def validateUpdateCommentData_def requiredLength_typed)




subsection \<open>Contributors\<close>

text \<open>
  C1, as the code has it. \<open>removeContributor\<close> answers \<open>CANNOT_REMOVE_OWNER\<close> exactly when
  the caller is the owner of the project and the target is the caller; the database is
  then unchanged. A caller without \<open>canModifyProject\<close> is answered \<open>FORBIDDEN\<close> with the
  database unchanged, whoever the target is. Every other caller allowed to modify the
  project, in particular an admin who targets the owner, is answered with a success, and
  the database loses the membership rows of the target in the project and nothing else.
  Whatever the outcome, the project rows, and with them the owner of every project, are
  the ones from before the call.
\<close>

theorem removeContributor_owner_guard:
  assumes "removeContributor db (Some caller) projectId userId = (db', r)"
  shows "(r = Failure cannotRemoveOwner \<longleftrightarrow> isProjectOwner db caller projectId \<and> caller = userId) \<and>
         (r = Failure cannotRemoveOwner \<longrightarrow> db' = db) \<and>
         projects db' = projects db \<and>
         (\<not> canModifyProject db caller projectId \<longrightarrow>
            db' = db \<and> r = Failure cannotModifyProject \<and> errorCode r = Some (''FORBIDDEN'', 403)) \<and>
         (canModifyProject db caller projectId \<and> \<not> (isProjectOwner db caller projectId \<and> caller = userId) \<longrightarrow>
            isSuccess r \<and>
            db' = db\<lparr>members := filter (\<lambda>m. \<not> (m_userId m = userId \<and> m_projectId m = projectId)) (members db)\<rparr>) \<and>
         (isProjectAdmin db caller projectId \<and> isProjectOwner db userId projectId \<and> caller \<noteq> userId \<longrightarrow>
            isSuccess r)"
  using assms
  by (auto simp: removeContributor_def cannotRemoveOwner_def sendError_def canModifyProject_def
      cannotModifyProject_def isProjectOwner_def split: if_splits)

theorem removeContributor_owner_guard_witness:
  "isProjectOwner exampleDb ''u1'' ''p1'' \<and>
   removeContributor exampleDb (Some ''u1'') ''p1'' ''u1'' = (exampleDb, Failure cannotRemoveOwner) \<and>
   \<not> canModifyProject exampleDb ''u3'' ''p1'' \<and>
   removeContributor exampleDb (Some ''u3'') ''p1'' ''u1'' = (exampleDb, Failure cannotModifyProject) \<and>
   isProjectAdmin exampleDb ''u2'' ''p1'' \<and>
   isSuccess (snd (removeContributor exampleDb (Some ''u2'') ''p1'' ''u1''))"
proof -
  have o: "isProjectOwner exampleDb ''u1'' ''p1''"
    by (simp add: exampleDb_def isProjectOwner_def ownershipLookup_def findProject_def)
  have c: "\<not> canModifyProject exampleDb ''u3'' ''p1''"
    by (simp add: exampleDb_def canModifyProject_def isProjectOwner_def ownershipLookup_def findProject_def
        isProjectAdmin_def membershipLookup_def findMember_def)
  have a: "isProjectAdmin exampleDb ''u2'' ''p1''"
    by (simp add: exampleDb_def isProjectAdmin_def membershipLookup_def findMember_def)
  have r1: "removeContributor exampleDb (Some ''u1'') ''p1'' ''u1'' =
              (fst (removeContributor exampleDb (Some ''u1'') ''p1'' ''u1''),
               snd (removeContributor exampleDb (Some ''u1'') ''p1'' ''u1''))"
    by simp
  have r2: "removeContributor exampleDb (Some ''u3'') ''p1'' ''u1'' =
              (fst (removeContributor exampleDb (Some ''u3'') ''p1'' ''u1''),
               snd (removeContributor exampleDb (Some ''u3'') ''p1'' ''u1''))"
    by simp
  have r3: "removeContributor exampleDb (Some ''u2'') ''p1'' ''u1'' =
              (fst (removeContributor exampleDb (Some ''u2'') ''p1'' ''u1''),
               snd (removeContributor exampleDb (Some ''u2'') ''p1'' ''u1''))"
    by simp
  show ?thesis
    using o c a removeContributor_owner_guard [OF r1] removeContributor_owner_guard [OF r2]
      removeContributor_owner_guard [OF r3]
    by (auto simp: prod_eq_iff)
qed

text \<open>
  C1 as stated fails: the admin \<open>u2\<close> asks to remove the owner \<open>u1\<close> and is answered with
  a success, and the contributor \<open>u3\<close> asking the same is answered \<open>FORBIDDEN\<close>; neither
  gets \<open>CANNOT_REMOVE_OWNER\<close>.
\<close>

theorem removeContributor_owner_counterexample:
  "isProjectOwner exampleDb ''u1'' ''p1'' \<and>
   isSuccess (snd (removeContributor exampleDb (Some ''u2'') ''p1'' ''u1'')) \<and>
   errorCode (snd (removeContributor exampleDb (Some ''u3'') ''p1'' ''u1'')) = Some (''FORBIDDEN'', 403)"
  by (simp add: removeContributor_def exampleDb_def isProjectOwner_def ownershipLookup_def findProject_def
      canModifyProject_def isProjectAdmin_def membershipLookup_def findMember_def cannotModifyProject_def)

lemma filter_members_noop:
  assumes "findMember db userId projectId = None"
  shows "db\<lparr>members := filter (\<lambda>m. \<not> (m_userId m = userId \<and> m_projectId m = projectId)) (members db)\<rparr> = db"
proof -
  from assms have "\<forall>m\<in>set (members db). \<not> (m_userId m = userId \<and> m_projectId m = projectId)"
    by (simp add: findMember_def find_None_iff)
  then have "filter (\<lambda>m. \<not> (m_userId m = userId \<and> m_projectId m = projectId)) (members db) = members db"
    by (simp add: filter_id_conv)
  then show ?thesis by simp
qed

text \<open>
  C6. For a caller allowed to modify the project: removing a user who is not a member
  (no membership row, not the owner) answers a success and leaves the database as it
  was; adding, by email, a user who already has a membership row answers
  \<open>USER_ALREADY_MEMBER\<close> with status 409 and leaves the database as it was.
\<close>

theorem contributor_idempotence:
  assumes "canModifyProject db caller projectId"
  shows "(findMember db userId projectId = None \<and> \<not> isProjectOwner db userId projectId \<longrightarrow>
            fst (removeContributor db (Some caller) projectId userId) = db \<and>
            isSuccess (snd (removeContributor db (Some caller) projectId userId))) \<and>
         (find (\<lambda>u. u_email u = toLowerCase rt (ac_email req)) (users db) = Some u \<and>
          findMember db (u_id u) projectId \<noteq> None \<longrightarrow>
            fst (addContributor rt db (Some caller) projectId req) = db \<and>
            errorCode (snd (addContributor rt db (Some caller) projectId req)) =
              Some (''USER_ALREADY_MEMBER'', 409))"
  using assms filter_members_noop [of db userId projectId]
  by (auto simp: removeContributor_def addContributor_def sendError_def)

theorem contributor_idempotence_witness:
  "canModifyProject exampleDb ''u2'' ''p1'' \<and>
   findMember exampleDb ''u4'' ''p1'' = None \<and> \<not> isProjectOwner exampleDb ''u4'' ''p1'' \<and>
   fst (removeContributor exampleDb (Some ''u2'') ''p1'' ''u4'') = exampleDb \<and>
   isSuccess (snd (removeContributor exampleDb (Some ''u2'') ''p1'' ''u4'')) \<and>
   findMember exampleDb ''u3'' ''p1'' \<noteq> None \<and>
   errorCode (snd (addContributor asciiRuntime exampleDb (Some ''u2'') ''p1''
                \<lparr>ac_email = js ''Caroline@example.com'', ac_role = None\<rparr>)) =
     Some (''USER_ALREADY_MEMBER'', 409)"
proof -
  have a: "canModifyProject exampleDb ''u2'' ''p1''"
    by (simp add: exampleDb_def canModifyProject_def isProjectAdmin_def membershipLookup_def findMember_def)
  have b: "findMember exampleDb ''u4'' ''p1'' = None \<and> \<not> isProjectOwner exampleDb ''u4'' ''p1''"
    by (simp add: exampleDb_def findMember_def isProjectOwner_def ownershipLookup_def findProject_def)
  have l: "toLowerCase asciiRuntime (js ''Caroline@example.com'') = js ''caroline@example.com''"
    by (simp add: asciiRuntime_def js_def isUpper_def)
  have c: "find (\<lambda>u. u_email u = toLowerCase asciiRuntime
                   (ac_email \<lparr>ac_email = js ''Caroline@example.com'', ac_role = None\<rparr>)) (users exampleDb)
             = Some \<lparr>u_id = ''u3'', u_email = js ''caroline@example.com''\<rparr>"
    by (simp add: l) (simp add: exampleDb_def exampleUsers_def js_def)
  have d: "findMember exampleDb ''u3'' ''p1'' \<noteq> None"
    by (simp add: exampleDb_def findMember_def)
  show ?thesis
    using a b c d
      contributor_idempotence [OF a, of "''u4''" asciiRuntime
        "\<lparr>ac_email = js ''Caroline@example.com'', ac_role = None\<rparr>"
        "\<lparr>u_id = ''u3'', u_email = js ''caroline@example.com''\<rparr>"]
    by simp
qed

text \<open>
  C4, as the model has it. A user who holds a \<open>CONTRIBUTOR\<close> membership row and is not
  the owner of the project is denied \<open>canModifyProject\<close> and \<open>canDeleteProject\<close> and is
  granted \<open>hasProjectAccess\<close>, \<open>canCreateTasks\<close> and \<open>canModifyTasks\<close>; with a valid body
  their \<open>updateProject\<close> is answered \<open>FORBIDDEN\<close> and changes nothing, while the same request
  from the owner succeeds and rewrites the project row.
\<close>

theorem contributor_permissions:
  assumes "membershipLookup db userId projectId = Some CONTRIBUTOR"
      and "\<not> isProjectOwner db userId projectId"
  shows "\<not> canModifyProject db userId projectId \<and>
         \<not> canDeleteProject db userId projectId \<and>
         hasProjectAccess db userId projectId \<and>
         canCreateTasks db userId projectId \<and>
         canModifyTasks db userId projectId \<and>
         (validateUpdateProjectData (req\<lparr>up_contributors := None\<rparr>) = [] \<longrightarrow>
            updateProject db (Some userId) projectId req = (db, Failure cannotModifyProject) \<and>
            errorCode (Failure cannotModifyProject :: ProjectSummary Response) = Some (''FORBIDDEN'', 403) \<and>
            (isProjectOwner db owner projectId \<longrightarrow>
               isSuccess (snd (updateProject db (Some owner) projectId req)) \<and>
               projects (fst (updateProject db (Some owner) projectId req)) =
                 map (\<lambda>x. if p_id x = projectId then updateProjectRow req x else x) (projects db)))"
  using assms
  by (auto simp: canModifyProject_def canDeleteProject_def hasProjectAccess_def canCreateTasks_def
      canModifyTasks_def isProjectAdmin_def updateProject_def cannotModifyProject_def
      isProjectOwner_def ownershipLookup_def Let_def split: option.splits)

theorem contributor_permissions_witness:
  "membershipLookup exampleDb ''u3'' ''p1'' = Some CONTRIBUTOR \<and>
   \<not> isProjectOwner exampleDb ''u3'' ''p1'' \<and>
   validateUpdateProjectData (renameProject\<lparr>up_contributors := None\<rparr>) = [] \<and>
   isProjectOwner exampleDb ''u1'' ''p1'' \<and>
   \<not> canModifyProject exampleDb ''u3'' ''p1'' \<and>
   updateProject exampleDb (Some ''u3'') ''p1'' renameProject = (exampleDb, Failure cannotModifyProject) \<and>
   isSuccess (snd (updateProject exampleDb (Some ''u1'') ''p1'' renameProject))"
proof -
  have a: "membershipLookup exampleDb ''u3'' ''p1'' = Some CONTRIBUTOR"
    by (simp add: exampleDb_def membershipLookup_def findMember_def)
  have b: "\<not> isProjectOwner exampleDb ''u3'' ''p1''"
    by (simp add: exampleDb_def isProjectOwner_def ownershipLookup_def findProject_def)
  have t: "trim (js ''Abricot 2'') = js ''Abricot 2''"
    by (simp add: trim_def js_def isWhiteSpace_def)
  have c: "validateUpdateProjectData (renameProject\<lparr>up_contributors := None\<rparr>) = []"
    by (simp add: validateUpdateProjectData_def renameProject_def t) (simp add: js_def)
  have d: "isProjectOwner exampleDb ''u1'' ''p1''"
    by (simp add: exampleDb_def isProjectOwner_def ownershipLookup_def findProject_def)
  show ?thesis
    using a b c d contributor_permissions [OF a b, of renameProject "''u1''"]
    by simp
qed

text \<open>
  C4 as stated fails for a user who holds a \<open>CONTRIBUTOR\<close> row and is also the owner, as
  \<open>u1\<close> is in the database that \<open>createProject\<close> leaves when the owner lists their own
  email: \<open>canModifyProject\<close> and \<open>canDeleteProject\<close> hold for them.
\<close>

theorem owner_with_contributor_row_counterexample:
  "membershipLookup ownerListedDb ''u1'' ''p1'' = Some CONTRIBUTOR \<and>
   canModifyProject ownerListedDb ''u1'' ''p1'' \<and>
   canDeleteProject ownerListedDb ''u1'' ''p1''"
  by (simp add: ownerListedDb_def membershipLookup_def findMember_def canModifyProject_def
      canDeleteProject_def isProjectOwner_def ownershipLookup_def findProject_def)

subsection \<open>Comments\<close>

text \<open>
  C7, as the code has it. For an existing comment: \<open>updateComment\<close> succeeds exactly when
  the content is valid, the caller has access to the project and the caller is the
  author, and with a valid content any other caller is answered \<open>FORBIDDEN\<close>;
  \<open>deleteComment\<close> succeeds exactly when the caller has access to the project and is the
  author or satisfies \<open>canModifyTasks\<close>.
\<close>

theorem comment_mutation_rules:
  assumes "findComment db commentId taskId projectId = Some c"
  shows "(isSuccess (snd (updateComment db (Some caller) projectId taskId commentId content)) \<longleftrightarrow>
            validateUpdateCommentData content = [] \<and> hasProjectAccess db caller projectId \<and>
            c_authorId c = caller) \<and>
         (c_authorId c \<noteq> caller \<and> validateUpdateCommentData content = [] \<longrightarrow>
            fst (updateComment db (Some caller) projectId taskId commentId content) = db \<and>
            errorCode (snd (updateComment db (Some caller) projectId taskId commentId content)) =
              Some (''FORBIDDEN'', 403)) \<and>
         (isSuccess (snd (deleteComment db (Some caller) projectId taskId commentId)) \<longleftrightarrow>
            hasProjectAccess db caller projectId \<and>
            (c_authorId c = caller \<or> canModifyTasks db caller projectId))"
  using assms
  by (auto simp: updateComment_def deleteComment_def sendError_def sendValidationError_def
      accessDenied_def)

theorem comment_mutation_rules_witness:
  "findComment exampleDb ''c1'' ''t1'' ''p1'' =
     Some \<lparr>c_id = ''c1'', c_content = js ''Premier'', c_taskId = ''t1'', c_authorId = ''u3'',
           c_createdAt = 100\<rparr> \<and>
   validateUpdateCommentData (js ''Ok'') = [] \<and>
   isSuccess (snd (updateComment exampleDb (Some ''u3'') ''p1'' ''t1'' ''c1'' (js ''Ok''))) \<and>
   errorCode (snd (updateComment exampleDb (Some ''u2'') ''p1'' ''t1'' ''c1'' (js ''Ok''))) =
     Some (''FORBIDDEN'', 403) \<and>
   isSuccess (snd (deleteComment exampleDb (Some ''u2'') ''p1'' ''t1'' ''c1''))"
proof -
  have a: "findComment exampleDb ''c1'' ''t1'' ''p1'' =
             Some \<lparr>c_id = ''c1'', c_content = js ''Premier'', c_taskId = ''t1'', c_authorId = ''u3'',
                   c_createdAt = 100\<rparr>"
    by (simp add: exampleDb_def findComment_def)
  have v: "validateUpdateCommentData (js ''Ok'') = []"
    by (simp add: validateUpdateCommentData_def trim_def js_def isWhiteSpace_def)
  have h: "hasProjectAccess exampleDb ''u3'' ''p1'' \<and> hasProjectAccess exampleDb ''u2'' ''p1''"
    by (simp add: exampleDb_def hasProjectAccess_def membershipLookup_def findMember_def)
  show ?thesis
    using a v h
      comment_mutation_rules [OF a, of "''u3''" "js ''Ok''"]
      comment_mutation_rules [OF a, of "''u2''" "js ''Ok''"]
    by (simp add: canModifyTasks_def)
qed

text \<open>
  C7 as stated fails for the deletion: \<open>u4\<close> is the author of comment \<open>c2\<close> and has no
  access to the project any more, and their \<open>deleteComment\<close> is answered \<open>FORBIDDEN\<close>.
\<close>

theorem deleteComment_author_counterexample:
  "map_option c_authorId (findComment exampleDb ''c2'' ''t1'' ''p1'') = Some ''u4'' \<and>
   errorCode (snd (deleteComment exampleDb (Some ''u4'') ''p1'' ''t1'' ''c2'')) = Some (''FORBIDDEN'', 403)"
  by (simp add: exampleDb_def findComment_def deleteComment_def hasProjectAccess_def isProjectOwner_def
      ownershipLookup_def findProject_def membershipLookup_def findMember_def accessDenied_def)

lemma sorted_orderByAsc: "sorted (map key (orderByAsc key rows))"
  by (simp add: orderByAsc_def)

lemma sorted_orderByDesc: "sorted (rev (map key (orderByDesc key rows)))"
  by (simp add: orderByDesc_def rev_map[symmetric])

text \<open>
  C8, as the code has it. The comments that \<open>getTaskComments\<close> gives (which the task
  handlers put in their payload), the comments that \<open>getComments\<close> lists and the comments
  of the task that \<open>getTask\<close> returns are in ascending order of creation time; the comments
  embedded in every task of the project that \<open>getProject\<close> returns are in descending order
  of creation time.
\<close>

theorem comments_display_order:
  "sorted (map c_createdAt (getTaskComments db taskId)) \<and>
   (responseData (getComments db user projectId taskId) = Some cs \<longrightarrow> sorted (map c_createdAt cs)) \<and>
   (responseData (getTask db user projectId taskId) = Some t \<longrightarrow> sorted (map c_createdAt (tr_comments t))) \<and>
   (responseData (getProject db user projectId) = Some p \<longrightarrow>
      (\<forall>t'\<in>set (pd_tasks p). sorted (rev (map c_createdAt (tr_comments t')))))"
proof (intro conjI impI)
  show "sorted (map c_createdAt (getTaskComments db taskId))"
    by (simp add: getTaskComments_def sorted_orderByAsc)
next
  assume "responseData (getComments db user projectId taskId) = Some cs"
  then have "cs = orderByAsc c_createdAt (filter (\<lambda>c. c_taskId c = taskId) (comments db))"
    by (auto simp: getComments_def split: option.splits if_splits)
  then show "sorted (map c_createdAt cs)"
    by (simp add: sorted_orderByAsc)
next
  assume "responseData (getTask db user projectId taskId) = Some t"
  then have "tr_comments t = getTaskComments db taskId"
    by (auto simp: getTask_def taskResponse_def findTask_def split: option.splits if_splits
        dest: find_Some_iff[THEN iffD1])
  then show "sorted (map c_createdAt (tr_comments t))"
    by (simp add: getTaskComments_def sorted_orderByAsc)
next
  assume "responseData (getProject db user projectId) = Some p"
  then have "pd_tasks p = projectTasks db projectId"
    by (auto simp: getProject_def sendError_def split: option.splits if_splits)
  then show "\<forall>t'\<in>set (pd_tasks p). sorted (rev (map c_createdAt (tr_comments t')))"
    by (auto simp: projectTasks_def sorted_orderByDesc)
qed

lemma example_access: "hasProjectAccess exampleDb ''u1'' ''p1''"
  by (simp add: exampleDb_def hasProjectAccess_def isProjectOwner_def ownershipLookup_def findProject_def)

theorem comments_display_order_witness:
  "responseData (getComments exampleDb (Some ''u1'') ''p1'' ''t1'') = Some (comments exampleDb) \<and>
   sorted (map c_createdAt (comments exampleDb)) \<and>
   map_option tr_comments (responseData (getTask exampleDb (Some ''u1'') ''p1'' ''t1'')) =
     Some (comments exampleDb) \<and>
   map_option (map tr_comments \<circ> pd_tasks) (responseData (getProject exampleDb (Some ''u1'') ''p1'')) =
     Some [rev (comments exampleDb)] \<and>
   sorted (rev (map c_createdAt (rev (comments exampleDb))))"
proof -
  have g: "responseData (getComments exampleDb (Some ''u1'') ''p1'' ''t1'') = Some (comments exampleDb)"
    by (simp add: getComments_def example_access) (simp add: exampleDb_def findTask_def orderByAsc_def)
  obtain t where t: "responseData (getTask exampleDb (Some ''u1'') ''p1'' ''t1'') = Some t"
    and tc: "tr_comments t = comments exampleDb"
    by (simp add: getTask_def example_access)
       (simp add: exampleDb_def findTask_def taskResponse_def getTaskComments_def orderByAsc_def)
  obtain p where p: "responseData (getProject exampleDb (Some ''u1'') ''p1'') = Some p"
    and pt: "map tr_comments (pd_tasks p) = [rev (comments exampleDb)]"
    by (simp add: getProject_def example_access)
       (simp add: exampleDb_def findProject_def projectTasks_def orderByDesc_def)
  from pt obtain t' where t': "t' \<in> set (pd_tasks p)" "tr_comments t' = rev (comments exampleDb)"
    by (cases "pd_tasks p") auto
  show ?thesis
    using g t tc p pt t'
      comments_display_order [where db = exampleDb and taskId = "''t1''" and user = "Some ''u1''"
        and projectId = "''p1''" and cs = "comments exampleDb" and t = t and p = p]
    by (auto simp del: rev_rev_ident)
qed

text \<open>
  C8 as stated fails for the project retrieval: the two comments of task \<open>t1\<close>, created
  at 100 and at 200, come back from \<open>getProject\<close> newest first.
\<close>

theorem getProject_comments_counterexample:
  "map_option (map (map c_createdAt \<circ> tr_comments) \<circ> pd_tasks)
     (responseData (getProject exampleDb (Some ''u1'') ''p1'')) = Some [[200, 100]] \<and>
   \<not> sorted [200, 100 :: int]"
  by (simp add: getProject_def exampleDb_def hasProjectAccess_def isProjectOwner_def ownershipLookup_def
      findProject_def projectTasks_def orderByDesc_def)

subsection \<open>Task assignees\<close>

lemma example_members_access:
  "hasProjectAccess exampleDb ''u1'' ''p1''" "hasProjectAccess exampleDb ''u3'' ''p1''"
  "\<not> hasProjectAccess exampleDb ''u4'' ''p1''"
  by (simp_all add: exampleDb_def hasProjectAccess_def isProjectOwner_def ownershipLookup_def
      findProject_def membershipLookup_def findMember_def)

lemma example_task: "findTask exampleDb ''t1'' ''p1'' \<noteq> None" "findProject exampleDb ''p1'' \<noteq> None"
  by (simp_all add: exampleDb_def findTask_def findProject_def)

lemma noChange_valid: "validateUpdateTaskData rt (noChange\<lparr>ut_assigneeIds := Some [''u3'', u]\<rparr>) = [] \<longleftrightarrow> u \<noteq> []"
  by (simp add: validateUpdateTaskData_def noChange_def statusErrors_def priorityErrors_def enumErrors_def
      dueDateErrors_def assigneeIdsErrors_def forEachIndexed_def enumerate_eq_zip upt_rec)

lemma assigneesRejected_stranger:
  assumes "stranger \<in> set ids" "\<not> hasProjectAccess db stranger projectId"
  shows "assigneesRejected db projectId (Some ids)"
  using assms by (auto simp: assigneesRejected_def validateProjectMembers_def list_all_iff)

lemma updateTask_rejected:
  assumes "assigneesRejected db projectId (ut_assigneeIds req)"
  shows "fst (updateTask rt fault db user projectId taskId req) = db \<and>
         \<not> isSuccess (snd (updateTask rt fault db user projectId taskId req)) \<and>
         (user = Some caller \<and> validateUpdateTaskData rt req = [] \<and> hasProjectAccess db caller projectId \<and>
          findTask db taskId projectId \<noteq> None \<longrightarrow>
            snd (updateTask rt fault db user projectId taskId req) = Failure invalidAssignees)"
  using assms
  by (auto simp: updateTask_def sendError_def sendValidationError_def canModifyTasks_def
      split: option.splits)

lemma createTask_rejected:
  assumes "assigneesRejected db projectId (ct_assigneeIds req)"
  shows "fst (createTask rt newId now fault db user projectId req) = db \<and>
         \<not> isSuccess (snd (createTask rt newId now fault db user projectId req)) \<and>
         (projectId \<noteq> [] \<and> user = Some caller \<and> validateCreateTaskData rt req = [] \<and>
          hasProjectAccess db caller projectId \<and> findProject db projectId \<noteq> None \<longrightarrow>
            snd (createTask rt newId now fault db user projectId req) = Failure invalidAssignees)"
  using assms
  by (auto simp: createTask_def sendError_def sendValidationError_def canCreateTasks_def
      split: option.splits)


text \<open>
  C2. When the proposed assignee list holds an id that is neither a member nor the
  owner of the project, \<open>updateTask\<close> and \<open>createTask\<close> leave the whole database, and so
  every assignment row, as it was, and do not answer a success; when the request passes
  the checks that come first (authentication, field validation, access to the project,
  existence of the task or of the project), the answer is \<open>INVALID_ASSIGNEES\<close> with
  status 400.
\<close>

theorem invalid_assignees_rejected:
  assumes "stranger \<in> set ids" and "\<not> hasProjectAccess db stranger projectId"
  shows "fst (updateTask rt fault db user projectId taskId (req\<lparr>ut_assigneeIds := Some ids\<rparr>)) = db \<and>
         \<not> isSuccess (snd (updateTask rt fault db user projectId taskId (req\<lparr>ut_assigneeIds := Some ids\<rparr>))) \<and>
         (user = Some caller \<and> validateUpdateTaskData rt (req\<lparr>ut_assigneeIds := Some ids\<rparr>) = [] \<and>
          hasProjectAccess db caller projectId \<and> findTask db taskId projectId \<noteq> None \<longrightarrow>
            snd (updateTask rt fault db user projectId taskId (req\<lparr>ut_assigneeIds := Some ids\<rparr>)) =
              Failure invalidAssignees) \<and>
         fst (createTask rt newId now fault db user projectId (creq\<lparr>ct_assigneeIds := Some ids\<rparr>)) = db \<and>
         \<not> isSuccess (snd (createTask rt newId now fault db user projectId (creq\<lparr>ct_assigneeIds := Some ids\<rparr>))) \<and>
         (projectId \<noteq> [] \<and> user = Some caller \<and>
          validateCreateTaskData rt (creq\<lparr>ct_assigneeIds := Some ids\<rparr>) = [] \<and>
          hasProjectAccess db caller projectId \<and> findProject db projectId \<noteq> None \<longrightarrow>
            snd (createTask rt newId now fault db user projectId (creq\<lparr>ct_assigneeIds := Some ids\<rparr>)) =
              Failure invalidAssignees) \<and>
         errorCode (Failure invalidAssignees :: TaskResponse Response) = Some (''INVALID_ASSIGNEES'', 400)"
proof -
  have r: "assigneesRejected db projectId (Some ids)"
    using assms by (rule assigneesRejected_stranger)
  have u: "assigneesRejected db projectId (ut_assigneeIds (req\<lparr>ut_assigneeIds := Some ids\<rparr>))"
    using r by simp
  have c: "assigneesRejected db projectId (ct_assigneeIds (creq\<lparr>ct_assigneeIds := Some ids\<rparr>))"
    using r by simp
  show ?thesis
    using updateTask_rejected [OF u, of rt fault user taskId caller]
      createTask_rejected [OF c, of rt newId now fault user caller]
    by (simp add: invalidAssignees_def)
qed

theorem invalid_assignees_rejected_witness:
  "''u4'' \<in> set [''u3'', ''u4''] \<and> \<not> hasProjectAccess exampleDb ''u4'' ''p1'' \<and>
   updateTask asciiRuntime None exampleDb (Some ''u3'') ''p1'' ''t1''
       (noChange\<lparr>ut_assigneeIds := Some [''u3'', ''u4'']\<rparr>) = (exampleDb, Failure invalidAssignees) \<and>
   createTask asciiRuntime ''t2'' 20 None exampleDb (Some ''u3'') ''p1''
       (newTask\<lparr>ct_assigneeIds := Some [''u3'', ''u4'']\<rparr>) = (exampleDb, Failure invalidAssignees)"
proof -
  have a: "''u4'' \<in> set [''u3'', ''u4'']"
    by simp
  have b: "\<not> hasProjectAccess exampleDb ''u4'' ''p1''"
    by (rule example_members_access)
  have v1: "validateUpdateTaskData asciiRuntime (noChange\<lparr>ut_assigneeIds := Some [''u3'', ''u4'']\<rparr>) = []"
    by (simp add: noChange_valid)
  have t: "trim (js ''Recette'') = js ''Recette''"
    by (simp add: trim_def js_def isWhiteSpace_def)
  have v2: "validateCreateTaskData asciiRuntime (newTask\<lparr>ct_assigneeIds := Some [''u3'', ''u4'']\<rparr>) = []"
    by (simp add: validateCreateTaskData_def newTask_def titleLengthErrors_def t priorityErrors_def
        enumErrors_def dueDateErrors_def assigneeIdsErrors_def forEachIndexed_def enumerate_eq_zip upt_rec)
       (simp add: js_def)
  show ?thesis
    using a b v1 v2 example_members_access example_task
      invalid_assignees_rejected [OF a b, where rt = asciiRuntime and fault = None
        and user = "Some ''u3''" and taskId = "''t1''" and req = noChange and caller = "''u3''"
        and newId = "''t2''" and now = 20 and creq = newTask]
    by (auto simp: prod_eq_iff)
qed

lemma runWrites_Some:
  "runWrites fault ws rows = Some rows' \<Longrightarrow> rows' = fold applyWrite ws rows"
  by (induction ws arbitrary: fault rows) (auto split: if_splits)

lemma runWrites_no_fault: "runWrites None ws rows = Some (fold applyWrite ws rows)"
  by (induction ws arbitrary: rows) auto

lemma fold_deletes:
  "fold applyWrite (map (DeleteAssignee t) ds) rows =
     filter (\<lambda>a. \<not> (a_taskId a = t \<and> a_userId a \<in> set ds)) rows"
proof (induction ds arbitrary: rows)
  case Nil
  then show ?case by simp
next
  case (Cons d ds)
  have "filter (\<lambda>a. \<not> (a_taskId a = t \<and> a_userId a \<in> set ds))
          (filter (\<lambda>a. \<not> (a_taskId a = t \<and> a_userId a = d)) rows)
        = filter (\<lambda>a. \<not> (a_taskId a = t \<and> a_userId a \<in> set (d # ds))) rows"
    by (induction rows) auto
  with Cons show ?case by simp
qed

lemma fold_inserts:
  "fold applyWrite (map (InsertAssignee t) us) rows =
     rows @ map (\<lambda>u. \<lparr>a_taskId = t, a_userId = u\<rparr>) us"
  by (induction us arbitrary: rows) auto

lemma reconciliation_result:
  "fold applyWrite (reconciliation t declared rows) rows =
     filter (\<lambda>a. a_taskId a \<noteq> t \<or> a_userId a \<in> set declared) rows @
     map (\<lambda>u. \<lparr>a_taskId = t, a_userId = u\<rparr>)
       (filter (\<lambda>u. u \<notin> a_userId ` set (filter (\<lambda>a. a_taskId a = t) rows)) (remdups declared))"
proof -
  have "filter (\<lambda>a. \<not> (a_taskId a = t \<and>
                 a_userId a \<in> set (filter (\<lambda>u. u \<notin> set declared)
                    (remdups (map a_userId (filter (\<lambda>a. a_taskId a = t) rows)))))) rows
        = filter (\<lambda>a. a_taskId a \<noteq> t \<or> a_userId a \<in> set declared) rows"
    by (rule filter_cong) auto
  then show ?thesis
    by (simp add: reconciliation_def Let_def fold_deletes fold_inserts)
qed

lemma assigneeSet_reconciled:
  assumes "assignees db' = fold applyWrite (reconciliation t declared (assignees db)) (assignees db)"
  shows "assigneeSet db' t = set declared"
proof -
  let ?cur = "a_userId ` set (filter (\<lambda>a. a_taskId a = t) (assignees db))"
  let ?new = "filter (\<lambda>u. u \<notin> ?cur) (remdups declared)"
  have kept: "a_userId ` set (filter (\<lambda>a. a_taskId a = t)
                (filter (\<lambda>a. a_taskId a \<noteq> t \<or> a_userId a \<in> set declared) (assignees db)))
              = ?cur \<inter> set declared"
    by auto
  have inserted: "a_userId ` set (filter (\<lambda>a. a_taskId a = t)
                    (map (\<lambda>u. \<lparr>a_taskId = t, a_userId = u\<rparr>) ?new)) = set declared - ?cur"
    by (auto simp: image_iff)
  have "assigneeSet db' t = (?cur \<inter> set declared) \<union> (set declared - ?cur)"
    unfolding assigneeSet_def getTaskAssignments_def assms reconciliation_result filter_append set_append
      image_Un kept inserted ..
  then show ?thesis by blast
qed

lemma statusErrors_accepts:
  "statusErrors v = [] \<Longrightarrow> v \<noteq> Some [] \<Longrightarrow>
     enumAccepts [''TODO'', ''IN_PROGRESS'', ''DONE'', ''CANCELLED''] v"
  by (auto simp: statusErrors_def enumErrors_def enumAccepts_def split: option.splits if_splits)

lemma priorityErrors_accepts:
  "priorityErrors v = [] \<Longrightarrow> v \<noteq> Some [] \<Longrightarrow>
     enumAccepts [''LOW'', ''MEDIUM'', ''HIGH'', ''URGENT''] v"
  by (auto simp: priorityErrors_def enumErrors_def enumAccepts_def split: option.splits if_splits)

lemma updateTaskRows_accepts:
  assumes "validateUpdateTaskData rt req = []" "ut_status req \<noteq> Some []" "ut_priority req \<noteq> Some []"
  shows "updateTaskRows rt db taskId req \<noteq> None"
  using assms statusErrors_accepts [of "ut_status req"] priorityErrors_accepts [of "ut_priority req"]
  by (simp add: updateTaskRows_def validateUpdateTaskData_def)

lemma updateTaskRows_assignees:
  "updateTaskRows rt db taskId req = Some db1 \<Longrightarrow> assignees db1 = assignees db"
  by (auto simp: updateTaskRows_def split: if_splits)

lemma updateTaskAssignments_Some:
  assumes "updateTaskAssignments fault db1 taskId declared = Some db2"
  shows "assignees db2 = fold applyWrite (reconciliation taskId declared (assignees db1)) (assignees db1)"
  using assms runWrites_Some
  by (fastforce simp: updateTaskAssignments_def split: option.splits)

lemma updateTask_cases:
  assumes "ut_assigneeIds req = Some declared"
  shows "(\<not> isSuccess (snd (updateTask rt fault db user projectId taskId req)) \<and>
          assignees (fst (updateTask rt fault db user projectId taskId req)) = assignees db) \<or>
         (isSuccess (snd (updateTask rt fault db user projectId taskId req)) \<and>
          assignees (fst (updateTask rt fault db user projectId taskId req)) =
            fold applyWrite (reconciliation taskId declared (assignees db)) (assignees db))"
  using assms
  by (auto simp: updateTask_def sendError_def sendValidationError_def
      split: option.splits dest!: updateTaskRows_assignees updateTaskAssignments_Some)

lemma updateTask_accepted:
  assumes "ut_assigneeIds req = Some declared" "user = Some caller" "validateUpdateTaskData rt req = []"
    "hasProjectAccess db caller projectId" "findTask db taskId projectId \<noteq> None"
    "validateProjectMembers db projectId declared" "ut_status req \<noteq> Some []" "ut_priority req \<noteq> Some []"
  shows "isSuccess (snd (updateTask rt None db user projectId taskId req))"
  using assms updateTaskRows_accepts [of rt req db taskId]
  by (auto simp: updateTask_def canModifyTasks_def assigneesRejected_def updateTaskAssignments_def
      runWrites_no_fault split: option.splits)


text \<open>
  C3. For an update that declares an assignee set: when \<open>updateTask\<close> answers a success,
  the assignees of the task are exactly the declared set, the rows of other tasks and the
  rows of the task that stay declared are the ones from before, in place, and one row
  is added for each newly declared id; when it does not answer a success, whether it
  was refused or the storage failed in the middle of the reconciliation, the assignment
  rows are the ones from before. A request that passes every check, with no storage
  failure, is answered with a success.
\<close>

theorem updateTask_assignee_reconciliation:
  assumes "ut_assigneeIds req = Some declared"
  shows "(isSuccess (snd (updateTask rt fault db user projectId taskId req)) \<longrightarrow>
            assigneeSet (fst (updateTask rt fault db user projectId taskId req)) taskId = set declared \<and>
            assignees (fst (updateTask rt fault db user projectId taskId req)) =
              filter (\<lambda>a. a_taskId a \<noteq> taskId \<or> a_userId a \<in> set declared) (assignees db) @
              map (\<lambda>u. \<lparr>a_taskId = taskId, a_userId = u\<rparr>)
                (filter (\<lambda>u. u \<notin> assigneeSet db taskId) (remdups declared))) \<and>
         (\<not> isSuccess (snd (updateTask rt fault db user projectId taskId req)) \<longrightarrow>
            assignees (fst (updateTask rt fault db user projectId taskId req)) = assignees db) \<and>
         (user = Some caller \<and> validateUpdateTaskData rt req = [] \<and> hasProjectAccess db caller projectId \<and>
          findTask db taskId projectId \<noteq> None \<and> validateProjectMembers db projectId declared \<and>
          ut_status req \<noteq> Some [] \<and> ut_priority req \<noteq> Some [] \<longrightarrow>
            isSuccess (snd (updateTask rt None db user projectId taskId req)))"
proof (intro conjI impI)
  assume ok: "isSuccess (snd (updateTask rt fault db user projectId taskId req))"
  with updateTask_cases [OF assms, of rt fault db user projectId taskId]
  have a: "assignees (fst (updateTask rt fault db user projectId taskId req)) =
             fold applyWrite (reconciliation taskId declared (assignees db)) (assignees db)"
    by blast
  from a show "assigneeSet (fst (updateTask rt fault db user projectId taskId req)) taskId = set declared"
    by (rule assigneeSet_reconciled)
  from a show "assignees (fst (updateTask rt fault db user projectId taskId req)) =
      filter (\<lambda>a. a_taskId a \<noteq> taskId \<or> a_userId a \<in> set declared) (assignees db) @
      map (\<lambda>u. \<lparr>a_taskId = taskId, a_userId = u\<rparr>)
        (filter (\<lambda>u. u \<notin> assigneeSet db taskId) (remdups declared))"
    by (simp add: reconciliation_result assigneeSet_def getTaskAssignments_def)
next
  assume "\<not> isSuccess (snd (updateTask rt fault db user projectId taskId req))"
  with updateTask_cases [OF assms, of rt fault db user projectId taskId]
  show "assignees (fst (updateTask rt fault db user projectId taskId req)) = assignees db"
    by blast
next
  assume "user = Some caller \<and> validateUpdateTaskData rt req = [] \<and> hasProjectAccess db caller projectId \<and>
          findTask db taskId projectId \<noteq> None \<and> validateProjectMembers db projectId declared \<and>
          ut_status req \<noteq> Some [] \<and> ut_priority req \<noteq> Some []"
  then show "isSuccess (snd (updateTask rt None db user projectId taskId req))"
    using updateTask_accepted [OF assms] by blast
qed

theorem updateTask_assignee_reconciliation_witness:
  "ut_assigneeIds reassign = Some [''u3'', ''u1''] \<and>
   assigneeSet exampleDb ''t1'' = {''u2'', ''u3''} \<and>
   isSuccess (snd (updateTask asciiRuntime None exampleDb (Some ''u3'') ''p1'' ''t1'' reassign)) \<and>
   assigneeSet (fst (updateTask asciiRuntime None exampleDb (Some ''u3'') ''p1'' ''t1'' reassign)) ''t1''
     = {''u3'', ''u1''} \<and>
   \<not> isSuccess (snd (updateTask asciiRuntime (Some 1) exampleDb (Some ''u3'') ''p1'' ''t1'' reassign)) \<and>
   assignees (fst (updateTask asciiRuntime (Some 1) exampleDb (Some ''u3'') ''p1'' ''t1'' reassign))
     = assignees exampleDb"
proof -
  have d: "ut_assigneeIds reassign = Some [''u3'', ''u1'']"
    by (simp add: reassign_def)
  have s: "assigneeSet exampleDb ''t1'' = {''u2'', ''u3''}"
    by (simp add: assigneeSet_def getTaskAssignments_def exampleDb_def)
  have v: "validateUpdateTaskData asciiRuntime reassign = []"
    by (simp add: reassign_def noChange_valid)
  have m: "validateProjectMembers exampleDb ''p1'' [''u3'', ''u1'']"
    by (simp add: validateProjectMembers_def example_members_access)
  have e: "ut_status reassign \<noteq> Some [] \<and> ut_priority reassign \<noteq> Some []"
    by (simp add: reassign_def noChange_def)
  have f: "\<not> isSuccess (snd (updateTask asciiRuntime (Some 1) exampleDb (Some ''u3'') ''p1'' ''t1'' reassign))"
    using v m example_task
    by (simp add: updateTask_def example_members_access canModifyTasks_def assigneesRejected_def d
        updateTaskRows_def enumAccepts_def e updateTaskAssignments_def split: option.splits)
       (simp add: reassign_def noChange_def exampleDb_def reconciliation_def)
  show ?thesis
    using d s v m e f example_members_access example_task
      updateTask_assignee_reconciliation [OF d, of asciiRuntime None exampleDb "Some ''u3''" "''p1''" "''t1''" "''u3''"]
      updateTask_assignee_reconciliation [OF d, of asciiRuntime "Some 1" exampleDb "Some ''u3''" "''p1''" "''t1''" "''u3''"]
    by auto
qed

subsection \<open>Project creation\<close>

lemma find_Some_member: "find P xs = Some x \<Longrightarrow> x \<in> set xs \<and> P x"
  by (induction xs) (auto split: if_splits)

lemma addContributorRow_fields:
  "users (addContributorRow pid u db) = users db"
  "projects (addContributorRow pid u db) = projects db"
  "tasks (addContributorRow pid u db) = tasks db"
  by (auto simp: addContributorRow_def createMember_def split: option.splits)

lemma fold_addContributorRow_fields:
  "users (fold (addContributorRow pid) us db) = users db \<and>
   projects (fold (addContributorRow pid) us db) = projects db \<and>
   tasks (fold (addContributorRow pid) us db) = tasks db"
  by (induction us arbitrary: db) (simp_all add: addContributorRow_fields)

lemma addContributorRow_members:
  assumes "\<forall>m\<in>set (members db). m_projectId m = pid \<longrightarrow> m_role m = CONTRIBUTOR"
  shows "set (members (addContributorRow pid u db)) =
           insert \<lparr>m_userId = u_id u, m_projectId = pid, m_role = CONTRIBUTOR\<rparr> (set (members db))"
proof (cases "findMember db (u_id u) pid")
  case None
  then show ?thesis by (simp add: addContributorRow_def createMember_def)
next
  case (Some m)
  then have m: "m \<in> set (members db)" "m_userId m = u_id u" "m_projectId m = pid"
    using find_Some_member [of "\<lambda>m. m_userId m = u_id u \<and> m_projectId m = pid" "members db" m]
    by (simp_all add: findMember_def)
  with assms have r: "m_role m = CONTRIBUTOR" by blast
  from m(2) m(3) r have "m = \<lparr>m_userId = u_id u, m_projectId = pid, m_role = CONTRIBUTOR\<rparr>"
    by (cases m) simp
  with m(1) Some show ?thesis
    by (auto simp: addContributorRow_def createMember_def)
qed

lemma fold_addContributorRow_members:
  assumes "\<forall>m\<in>set (members db). m_projectId m = pid \<longrightarrow> m_role m = CONTRIBUTOR"
  shows "set (members (fold (addContributorRow pid) us db)) =
           set (members db) \<union> (\<lambda>u. \<lparr>m_userId = u_id u, m_projectId = pid, m_role = CONTRIBUTOR\<rparr>) ` set us"
  using assms
proof (induction us arbitrary: db)
  case Nil
  then show ?case by simp
next
  case (Cons u us)
  have step: "set (members (addContributorRow pid u db)) =
                insert \<lparr>m_userId = u_id u, m_projectId = pid, m_role = CONTRIBUTOR\<rparr> (set (members db))"
    using Cons.prems by (rule addContributorRow_members)
  have inv: "\<forall>m\<in>set (members (addContributorRow pid u db)). m_projectId m = pid \<longrightarrow> m_role m = CONTRIBUTOR"
    using Cons.prems by (simp add: step)
  show ?case
    using Cons.IH [OF inv] by (simp add: step)
qed

lemma no_rows_for_fresh_project:
  assumes "membersReferToProjects db" "findProject db newId = None"
  shows "\<forall>m\<in>set (members db). m_projectId m \<noteq> newId"
proof
  fix m assume "m \<in> set (members db)"
  with assms(1) obtain p where "p \<in> set (projects db)" "p_id p = m_projectId m"
    by (auto simp: membersReferToProjects_def list_all_iff list_ex_iff)
  moreover from assms(2) have "\<forall>p\<in>set (projects db). p_id p \<noteq> newId"
    by (simp add: findProject_def find_None_iff)
  ultimately show "m_projectId m \<noteq> newId" by auto
qed

text \<open>
  C10. A \<open>createProject\<close> call with a valid body, for which the storage layer hands out
  an unused id (in a database whose membership rows refer to existing projects), is
  answered with a success of status 201 whatever the list of contributor emails resolves
  to: the project row is appended with the caller as owner, the users are untouched, and
  the membership rows of the new project are exactly one \<open>CONTRIBUTOR\<close> row for each
  existing user whose email is the lower-cased form of a listed email; listed emails
  that match no user add nothing, and a refused insertion is skipped.
\<close>

theorem createProject_contributors:
  assumes "validateCreateProjectData req = []"
      and "findProject db newId = None"
      and "membersReferToProjects db"
  shows "(\<exists>msg payload. snd (createProject rt newId db (Some caller) req) = Success msg payload (Some 201)) \<and>
         projects (fst (createProject rt newId db (Some caller) req)) =
           projects db @ [\<lparr>p_id = newId, p_name = trim (cp_name req),
                           p_description = trimOrNull (cp_description req), p_ownerId = caller\<rparr>] \<and>
         users (fst (createProject rt newId db (Some caller) req)) = users db \<and>
         set (members (fst (createProject rt newId db (Some caller) req))) =
           set (members db) \<union>
           (\<lambda>u. \<lparr>m_userId = u_id u, m_projectId = newId, m_role = CONTRIBUTOR\<rparr>) `
             {u \<in> set (users db). u_email u \<in> toLowerCase rt ` set (listedContributors req)} \<and>
         set (filter (\<lambda>m. m_projectId m = newId) (members (fst (createProject rt newId db (Some caller) req)))) =
           (\<lambda>u. \<lparr>m_userId = u_id u, m_projectId = newId, m_role = CONTRIBUTOR\<rparr>) `
             {u \<in> set (users db). u_email u \<in> toLowerCase rt ` set (listedContributors req)}"
proof -
  let ?p = "\<lparr>p_id = newId, p_name = trim (cp_name req),
              p_description = trimOrNull (cp_description req), p_ownerId = caller\<rparr>"
  let ?db1 = "db\<lparr>projects := projects db @ [?p]\<rparr>"
  let ?row = "\<lambda>u. \<lparr>m_userId = u_id u, m_projectId = newId, m_role = CONTRIBUTOR\<rparr>"
  let ?matched = "{u \<in> set (users db). u_email u \<in> toLowerCase rt ` set (listedContributors req)}"
  let ?db2 = "fold (addContributorRow newId) (contributorUsers rt ?db1 (listedContributors req)) ?db1"
  have row: "createProjectRow db ?p = Some ?db1"
    using assms(2) by (auto simp: createProjectRow_def findProject_def find_None_iff list_ex_iff)
  have none: "\<forall>m\<in>set (members db). m_projectId m \<noteq> newId"
    using assms(3) assms(2) by (rule no_rows_for_fresh_project)
  have cu: "set (contributorUsers rt ?db1 (listedContributors req)) = ?matched"
    by (auto simp: contributorUsers_def)
  have cu_nil: "contributorUsers rt ?db1 [] = []"
    by (simp add: contributorUsers_def)
  have db2: "fst (createProject rt newId db (Some caller) req) = ?db2"
    using assms(1) row cu_nil
    by (auto simp: createProject_def Let_def listedContributors_def split: option.splits)
  have ok: "\<exists>msg payload. snd (createProject rt newId db (Some caller) req) = Success msg payload (Some 201)"
    using assms(1) row
    by (auto simp: createProject_def Let_def split: option.splits)
  have inv: "\<forall>m\<in>set (members ?db1). m_projectId m = newId \<longrightarrow> m_role m = CONTRIBUTOR"
    using none by simp
  have mem: "set (members ?db2) = set (members db) \<union> ?row ` ?matched"
    using fold_addContributorRow_members [OF inv, of "contributorUsers rt ?db1 (listedContributors req)"]
    by (simp add: cu)
  have new: "set (filter (\<lambda>m. m_projectId m = newId) (members ?db2)) = ?row ` ?matched"
    using none by (auto simp: mem)
  show ?thesis
    unfolding db2 using ok mem new
    by (simp add: fold_addContributorRow_fields)
qed

lemma example_emails_valid:
  "isValidEmail (js ''Alice@Example.com'')"
  "isValidEmail (js ''caroline@example.com'')"
  "isValidEmail (js ''nobody@example.com'')"
  by (simp_all add: isValidEmail_def js_def emailChar_def isWhiteSpace_def)

lemma trim_Abricot: "trim (js ''Abricot'') = js ''Abricot''"
  by (simp add: trim_def js_def isWhiteSpace_def)

lemma ownerListsThemself_valid: "validateCreateProjectData ownerListsThemself = []"
  by (simp add: validateCreateProjectData_def ownerListsThemself_def trim_Abricot forEachIndexed_def
      example_emails_valid enumerate_eq_zip upt_rec) (simp add: js_def)

lemma example_emails_lower:
  "map (toLowerCase asciiRuntime)
     [js ''Alice@Example.com'', js ''caroline@example.com'', js ''nobody@example.com'']
   = [js ''alice@example.com'', js ''caroline@example.com'', js ''nobody@example.com'']"
  by (simp add: asciiRuntime_def js_def isUpper_def)

lemma contributorUsers_example:
  "contributorUsers asciiRuntime (usersOnlyDb\<lparr>projects := ps\<rparr>)
      [js ''Alice@Example.com'', js ''caroline@example.com'', js ''nobody@example.com'']
   = [\<lparr>u_id = ''u1'', u_email = js ''alice@example.com''\<rparr>,
      \<lparr>u_id = ''u3'', u_email = js ''caroline@example.com''\<rparr>]"
  unfolding contributorUsers_def example_emails_lower
  by (simp add: usersOnlyDb_def exampleUsers_def js_def)

lemma createProject_ownerListsThemself:
  "fst (createProject asciiRuntime ''p1'' usersOnlyDb (Some ''u1'') ownerListsThemself) = ownerListedDb"
proof -
  have c: "cp_contributors ownerListsThemself =
             Some [js ''Alice@Example.com'', js ''caroline@example.com'', js ''nobody@example.com'']"
          "cp_name ownerListsThemself = js ''Abricot''" "cp_description ownerListsThemself = None"
    by (simp_all add: ownerListsThemself_def)
  have r: "createProjectRow usersOnlyDb
             \<lparr>p_id = ''p1'', p_name = js ''Abricot'', p_description = None, p_ownerId = ''u1''\<rparr>
           = Some (usersOnlyDb\<lparr>projects :=
                     [\<lparr>p_id = ''p1'', p_name = js ''Abricot'', p_description = None, p_ownerId = ''u1''\<rparr>]\<rparr>)"
    by (simp add: createProjectRow_def usersOnlyDb_def)
  show ?thesis
    by (simp add: createProject_def ownerListsThemself_valid c trim_Abricot trimOrNull_def r
        contributorUsers_example addContributorRow_def createMember_def findMember_def)
       (simp add: usersOnlyDb_def ownerListedDb_def Let_def)
qed

theorem createProject_contributors_witness:
  "validateCreateProjectData ownerListsThemself = [] \<and>
   findProject usersOnlyDb ''p1'' = None \<and>
   membersReferToProjects usersOnlyDb \<and>
   fst (createProject asciiRuntime ''p1'' usersOnlyDb (Some ''u1'') ownerListsThemself) = ownerListedDb \<and>
   isSuccess (snd (createProject asciiRuntime ''p1'' usersOnlyDb (Some ''u1'') ownerListsThemself)) \<and>
   set (members ownerListedDb) =
     {\<lparr>m_userId = ''u1'', m_projectId = ''p1'', m_role = CONTRIBUTOR\<rparr>,
      \<lparr>m_userId = ''u3'', m_projectId = ''p1'', m_role = CONTRIBUTOR\<rparr>}"
proof -
  have a: "validateCreateProjectData ownerListsThemself = []"
    by (rule ownerListsThemself_valid)
  have b: "findProject usersOnlyDb ''p1'' = None"
    by (simp add: findProject_def usersOnlyDb_def)
  have c: "membersReferToProjects usersOnlyDb"
    by (simp add: membersReferToProjects_def usersOnlyDb_def)
  have d: "set (members ownerListedDb) =
     {\<lparr>m_userId = ''u1'', m_projectId = ''p1'', m_role = CONTRIBUTOR\<rparr>,
      \<lparr>m_userId = ''u3'', m_projectId = ''p1'', m_role = CONTRIBUTOR\<rparr>}"
    by (simp add: ownerListedDb_def)
  from createProject_contributors [OF a b c, of asciiRuntime "''u1''"]
  have "isSuccess (snd (createProject asciiRuntime ''p1'' usersOnlyDb (Some ''u1'') ownerListsThemself))"
    by auto
  then show ?thesis
    using a b c d createProject_ownerListsThemself by simp
qed

subsection \<open>The permission evaluator\<close>














lemma other_handlers_keep_memberships:
  "projects (fst (createTask rt newId now fault db user projectId ct)) = projects db \<and>
   members (fst (createTask rt newId now fault db user projectId ct)) = members db \<and>
   projects (fst (updateTask rt fault db user projectId taskId ut)) = projects db \<and>
   members (fst (updateTask rt fault db user projectId taskId ut)) = members db \<and>
   projects (fst (updateComment db user projectId taskId commentId content)) = projects db \<and>
   members (fst (updateComment db user projectId taskId commentId content)) = members db \<and>
   projects (fst (deleteComment db user projectId taskId commentId)) = projects db \<and>
   members (fst (deleteComment db user projectId taskId commentId)) = members db"
proof -
  have c: "projects (fst (createTask rt newId now fault db user projectId ct)) = projects db \<and>
           members (fst (createTask rt newId now fault db user projectId ct)) = members db"
    by (auto simp: createTask_def createTaskRow_def updateTaskAssignments_def
        split: option.splits if_splits)
  have u: "projects (fst (updateTask rt fault db user projectId taskId ut)) = projects db \<and>
           members (fst (updateTask rt fault db user projectId taskId ut)) = members db"
    by (auto simp: updateTask_def updateTaskRows_def updateTaskAssignments_def
        split: option.splits if_splits)
  have m: "projects (fst (updateComment db user projectId taskId commentId content)) = projects db \<and>
           members (fst (updateComment db user projectId taskId commentId content)) = members db"
    by (auto simp: updateComment_def split: option.splits)
  have d: "projects (fst (deleteComment db user projectId taskId commentId)) = projects db \<and>
           members (fst (deleteComment db user projectId taskId commentId)) = members db"
    by (auto simp: deleteComment_def split: option.splits)
  show ?thesis using c u m d by simp
qed




end
